theory Spec2Isabelle
  imports Complex_Main
begin

section \<open>Failure modes of the package\<close>

text \<open>
  The package \<open>lsystems\<close> never returns an error value. A contract violation calls
  \<open>halt\<close>, which logs a message and exits the process (\<open>log.Fatalln\<close>); an index outside
  a slice or string is a run-time panic of Go. Both end the call without a result, so both
  are \<open>Inl\<close> values here. \<open>Hang\<close> stands for a loop iteration that leaves every variable
  of the loop as it found it, so that the loop repeats that iteration for ever.
\<close>

datatype error =
    Halt string
  | Panic_index_out_of_range
  | Panic_negative_Repeat_count
  | Hang

section \<open>Strings\<close>

text \<open>
  A Go string is a sequence of bytes: a \<open>char list\<close>. The conversion \<open>string(s[pos])\<close>
  of one byte yields the UTF-8 encoding of the code point with that number: the byte itself
  below 128, two bytes from 128 on.
\<close>

definition go_string_of_byte :: "char \<Rightarrow> string" where
  "go_string_of_byte c =
     (let n = (of_char c :: nat)
      in if n < 128 then [c] else [char_of (192 + n div 64), char_of (128 + n mod 64)])"

text \<open>
  \<open>strings.NewReplacer("+-", "", "-+", "").Replace\<close>: one sweep from left to right; where
  one of the two old strings starts, it is dropped and the sweep goes on behind it;
  elsewhere one byte is copied.
\<close>

fun remove_pointless_turns :: "string \<Rightarrow> string" where
  "remove_pointless_turns (a # b # cs) =
     (if (a = CHR ''+'' \<and> b = CHR ''-'') \<or> (a = CHR ''-'' \<and> b = CHR ''+'')
      then remove_pointless_turns cs
      else a # remove_pointless_turns (b # cs))"
| "remove_pointless_turns cs = cs"

text \<open>
  \<open>strings.NewReplacer(symbol, "").Replace\<close> for a non-empty \<open>symbol\<close>: every occurrence of
  \<open>symbol\<close>, found from left to right without overlap, is dropped.
\<close>

fun delete_all :: "string \<Rightarrow> string \<Rightarrow> string" where
  "delete_all old [] = []"
| "delete_all old (c # cs) =
     (if old \<noteq> [] \<and> take (length old) (c # cs) = old
      then delete_all old (drop (length old) (c # cs))
      else c # delete_all old cs)"

section \<open>The stochastic engine\<close>

text \<open>
  \<open>Stochastic\<close> draws from the generator of \<open>math/rand\<close> that the whole process shares;
  \<open>init\<close> seeds it from the clock. The generator is library code: its state is a value of
  an arbitrary type \<open>'g\<close>, and \<open>rand.Intn\<close> is the parameter \<open>intn\<close>, which maps a state
  and a bound \<open>n\<close> to a draw and the next state.
\<close>

type_synonym 'g Intn = "'g \<Rightarrow> nat \<Rightarrow> nat \<times> 'g"

text \<open>
  The lottery of \<open>Stochastic\<close>: for the weight \<open>v\<close> at index \<open>k\<close>, \<open>v\<close> copies of \<open>k\<close>
  are appended to \<open>selectors\<close>. The loop ranges over the whole of \<open>weights\<close>.
\<close>

fun make_selectors :: "nat \<Rightarrow> int list \<Rightarrow> nat list \<Rightarrow> error + nat list" where
  "make_selectors k [] selectors = Inr selectors"
| "make_selectors k (v # weights) selectors =
     (if \<not> (v > 0) then Inl (Halt ''weights must be postive'')
      else make_selectors (Suc k) weights (selectors @ replicate (nat v) k))"

text \<open>
  One generation. \<open>strings.Split(TurtleCmds, "")\<close> cuts the string into its UTF-8
  sequences and every sequence other than \<open>F\<close> is appended as it is; the byte of \<open>F\<close> is
  never part of a longer sequence, so on well-formed UTF-8 the loop is this loop over bytes.
  \<open>selectors[d]\<close> and \<open>rules[k]\<close> are bounds-checked reads.
\<close>

fun stochastic_generation ::
  "'g Intn \<Rightarrow> string list \<Rightarrow> nat list \<Rightarrow> string \<Rightarrow> string \<Rightarrow> 'g \<Rightarrow> error + (string \<times> 'g)" where
  "stochastic_generation intn rules selectors [] newCmds g = Inr (newCmds, g)"
| "stochastic_generation intn rules selectors (symbol # rest) newCmds g =
     (if symbol = CHR ''F'' then
        (case intn g (length selectors) of (d, g') \<Rightarrow>
           if \<not> d < length selectors then Inl Panic_index_out_of_range
           else if \<not> selectors ! d < length rules then Inl Panic_index_out_of_range
           else stochastic_generation intn rules selectors rest
                  (newCmds @ rules ! (selectors ! d)) g')
      else stochastic_generation intn rules selectors rest (newCmds @ [symbol]) g)"

fun stochastic_loop ::
  "'g Intn \<Rightarrow> string list \<Rightarrow> nat list \<Rightarrow> nat \<Rightarrow> string \<Rightarrow> 'g \<Rightarrow> error + (string \<times> 'g)" where
  "stochastic_loop intn rules selectors 0 TurtleCmds g = Inr (TurtleCmds, g)"
| "stochastic_loop intn rules selectors (Suc n) TurtleCmds g =
     (case stochastic_generation intn rules selectors TurtleCmds [] g of
        Inl e \<Rightarrow> Inl e
      | Inr (newCmds, g') \<Rightarrow> stochastic_loop intn rules selectors n newCmds g')"

text \<open>
  \<open>Stochastic(order, axiom, rules, weights)\<close>. The result is the new value of the exported
  \<open>TurtleCmds\<close> and the state in which the call leaves the shared generator.
\<close>

definition Stochastic ::
  "'g Intn \<Rightarrow> int \<Rightarrow> string \<Rightarrow> string list \<Rightarrow> int list \<Rightarrow> 'g \<Rightarrow> error + (string \<times> 'g)" where
  "Stochastic intn order axiom rules weights g =
     (if order < 0 then Inl (Halt ''curve order must be non-negative'')
      else if axiom = [] then Inl (Halt ''axiom was not specified'')
      else if length rules = 0 then Inl (Halt ''rules were not specified'')
      else if length weights = 0 then Inl (Halt ''weights were not specified'')
      else if length weights < length rules then
        Inl (Halt ''fewer weights specified than the number of rules'')
      else (case make_selectors 0 weights [] of
              Inl e \<Rightarrow> Inl e
            | Inr selectors \<Rightarrow> stochastic_loop intn rules selectors (nat order) axiom g))"

text \<open>
  A generator for concrete runs: its state is the list of the draws still to come, each
  reduced into the range that \<open>rand.Intn\<close> promises.
\<close>

fun list_intn :: "nat list Intn" where
  "list_intn [] n = (0, [])"
| "list_intn (d # ds) n = (d mod n, ds)"

section \<open>The context-sensitive engine of Hogeweg and Hesper\<close>

text \<open>
  The rule table is a Go map from keys to replacements: an association list with distinct
  keys, read with \<open>map_of\<close>. A key passes the check of \<open>HogewegHesper\<close> when it matches
  \<^verbatim>\<open>^(0|1) < (0|1) > (0|1)$\<close>, where \<^verbatim>\<open>^\<close> and \<^verbatim>\<open>$\<close> are the two ends of the text.
\<close>

type_synonym rule_table = "(string \<times> string) list"

definition bit_symbol :: "char \<Rightarrow> bool" where
  "bit_symbol c = (c = CHR ''0'' \<or> c = CHR ''1'')"

fun matches_rule_key :: "string \<Rightarrow> bool" where
  "matches_rule_key [l, s1, lt, s2, a, s3, gt, s4, r] =
     (bit_symbol l \<and> s1 = CHR '' '' \<and> lt = CHR ''<'' \<and> s2 = CHR '' '' \<and> bit_symbol a \<and>
      s3 = CHR '' '' \<and> gt = CHR ''>'' \<and> s4 = CHR '' '' \<and> bit_symbol r)"
| "matches_rule_key k = False"

definition rules_specified_correctly :: "rule_table \<Rightarrow> bool" where
  "rules_specified_correctly rules = list_all (\<lambda>(k, v). matches_rule_key k \<and> v \<noteq> []) rules"

definition unsupported :: "char \<Rightarrow> error" where
  "unsupported c =
     Halt (''the symbol '' @ [CHR 0x27] @ go_string_of_byte c @ [CHR 0x27] @ '' is not supported'')"

text \<open>
  \<open>getContextLHS\<close> walks \<open>lhs\<close> from its last byte to its first: \<open>lhs_search u cs\<close> is the
  search with \<open>cs\<close> the bytes still to the left of \<open>pos\<close>, nearest first, and \<open>u\<close> the
  value of \<open>unmatchedBrakets\<close> (0 outside the inner loop that skips a branch). The inner
  loop reads \<open>lhs[pos]\<close> after \<open>pos--\<close> with no test of \<open>pos\<close>, so running off the start of
  the string is a panic.
\<close>

fun lhs_search :: "nat \<Rightarrow> string \<Rightarrow> error + string" where
  "lhs_search 0 [] = Inr []"
| "lhs_search (Suc u) [] = Inl Panic_index_out_of_range"
| "lhs_search 0 (c # cs) =
     (if c = CHR ''F'' \<or> c = CHR ''+'' \<or> c = CHR ''-'' \<or> c = CHR ''$'' then lhs_search 0 cs
      else if c = CHR ''['' then lhs_search 0 cs
      else if c = CHR '']'' then lhs_search 1 cs
      else if c = CHR ''0'' \<or> c = CHR ''1'' then Inr [c]
      else Inl (unsupported c))"
| "lhs_search (Suc u) (c # cs) =
     (if c = CHR ''['' then lhs_search u cs
      else if c = CHR '']'' then lhs_search (Suc (Suc u)) cs
      else lhs_search (Suc u) cs)"

definition getContextLHS :: "string \<Rightarrow> error + string" where
  "getContextLHS lhs = lhs_search 0 (rev lhs)"

text \<open>
  \<open>getContextRHS\<close> walks \<open>rhs\<close> from its first byte on; a \<open>]\<close> outside a skipped side
  branch is the top of the branch and ends the search with the empty context.
\<close>

fun rhs_search :: "nat \<Rightarrow> string \<Rightarrow> error + string" where
  "rhs_search 0 [] = Inr []"
| "rhs_search (Suc u) [] = Inl Panic_index_out_of_range"
| "rhs_search 0 (c # cs) =
     (if c = CHR ''F'' \<or> c = CHR ''+'' \<or> c = CHR ''-'' \<or> c = CHR ''$'' then rhs_search 0 cs
      else if c = CHR '']'' then Inr []
      else if c = CHR ''['' then rhs_search 1 cs
      else if c = CHR ''0'' \<or> c = CHR ''1'' then Inr [c]
      else Inl (unsupported c))"
| "rhs_search (Suc u) (c # cs) =
     (if c = CHR ''['' then rhs_search (Suc (Suc u)) cs
      else if c = CHR '']'' then rhs_search u cs
      else rhs_search (Suc u) cs)"

definition getContextRHS :: "string \<Rightarrow> error + string" where
  "getContextRHS rhs = rhs_search 0 rhs"

text \<open>
  What the body of the inner \<open>for\<close> loop appends to \<open>newCmds\<close> for the symbol at \<open>pos\<close>,
  given \<open>lhs = TurtleCmds[:pos]\<close> and \<open>rhs = TurtleCmds[pos+1:]\<close>. The two searches run as
  coroutines; here the left one is asked first.
\<close>

definition rewrite_symbol :: "rule_table \<Rightarrow> string \<Rightarrow> char \<Rightarrow> string \<Rightarrow> error + string" where
  "rewrite_symbol rules lhs symbol rhs =
     (if symbol = CHR ''F'' \<or> symbol = CHR ''['' \<or> symbol = CHR '']'' \<or> symbol = CHR ''$''
      then Inr [symbol]
      else if symbol = CHR ''+'' then Inr ''-''
      else if symbol = CHR ''-'' then Inr ''+''
      else if symbol = CHR ''0'' \<or> symbol = CHR ''1'' then
        (case getContextLHS lhs of
           Inl e \<Rightarrow> Inl e
         | Inr l \<Rightarrow>
             (case getContextRHS rhs of
                Inl e \<Rightarrow> Inl e
              | Inr r \<Rightarrow>
                  (case map_of rules (l @ '' < '' @ [symbol] @ '' > '' @ r) of
                     Some replacement \<Rightarrow> Inr replacement
                   | None \<Rightarrow> Inr [symbol])))
      else Inl (unsupported symbol))"

fun hh_generation :: "rule_table \<Rightarrow> string \<Rightarrow> string \<Rightarrow> string \<Rightarrow> error + string" where
  "hh_generation rules lhs [] newCmds = Inr newCmds"
| "hh_generation rules lhs (symbol # rhs) newCmds =
     (case rewrite_symbol rules lhs symbol rhs of
        Inl e \<Rightarrow> Inl e
      | Inr s \<Rightarrow> hh_generation rules (lhs @ [symbol]) rhs (newCmds @ s))"

fun hh_loop :: "rule_table \<Rightarrow> nat \<Rightarrow> string \<Rightarrow> error + string" where
  "hh_loop rules 0 TurtleCmds = Inr TurtleCmds"
| "hh_loop rules (Suc n) TurtleCmds =
     (case hh_generation rules [] TurtleCmds [] of
        Inl e \<Rightarrow> Inl e
      | Inr newCmds \<Rightarrow> hh_loop rules n newCmds)"

definition HogewegHesper :: "int \<Rightarrow> string \<Rightarrow> rule_table \<Rightarrow> error + string" where
  "HogewegHesper order axiom rules =
     (if order < 0 then Inl (Halt ''curve order must be non-negative'')
      else if axiom = [] then Inl (Halt ''axiom was not specified'')
      else if \<not> rules_specified_correctly rules then
        Inl (Halt ''the rules were not specified correctly'')
      else hh_loop rules (nat order) axiom)"

section \<open>Turtle state and library functions\<close>

text \<open>
  \<open>float64\<close> values are modelled as real numbers. Sums, differences, minima, maxima and
  \<open>math.Mod\<close> of integers of small magnitude are exact in \<open>float64\<close>, so the model and the
  code agree there; the rounding of other values is not modelled. The library functions
  whose results are not rational are parameters, collected in a record: \<open>math.Cos\<close>,
  \<open>math.Sin\<close>, \<open>strconv.ParseFloat\<close> (\<open>None\<close> for an error) and the verb \<^verbatim>\<open>%f\<close> of
  \<open>fmt.Sprintf\<close>. The record also holds the value of the conversion \<open>int(x)\<close> for a
  \<open>float32\<close> that is not a number, which Go leaves to the implementation.
\<close>

record mathlib =
  Cos :: "real \<Rightarrow> real"
  Sin :: "real \<Rightarrow> real"
  ParseFloat :: "string \<Rightarrow> real option"
  Sprintf_f :: "real \<Rightarrow> string"
  int_of_NaN :: int

text \<open>
  \<open>updateProgressBar(title, current, total)\<close> writes a bar of
  \<open>amount = int(0.1 + 50 * current / total)\<close> full and \<open>50 - amount\<close> empty cells to the
  console, and \<open>strings.Repeat\<close> panics on a negative count. The compilers call it with
  \<open>current = pos\<close> and \<open>total = len(*turtleCmds) - 1\<close>, where \<open>pos\<close> is below the
  length: \<open>amount\<close> lies between 0 and 50 unless \<open>total\<close> is 0, and then it is the
  conversion of 0/0. The console is not modelled, the panic is.
\<close>

definition updateProgressBar_panics :: "mathlib \<Rightarrow> nat \<Rightarrow> nat \<Rightarrow> bool" where
  "updateProgressBar_panics L current total' =
     (current = 0 \<and> total' = 0 \<and> (int_of_NaN L < 0 \<or> 50 < int_of_NaN L))"

definition degs2rads :: real where
  "degs2rads = pi / 180"

definition math_Mod :: "real \<Rightarrow> real \<Rightarrow> real" where
  "math_Mod x y = x - y * of_int (if 0 \<le> x / y then \<lfloor>x / y\<rfloor> else \<lceil>x / y\<rceil>)"

record turtleStatus =
  HEADING :: real
  X :: real
  Y :: real

type_synonym turtleHistory = "turtleStatus list"

definition push :: "turtleHistory \<Rightarrow> turtleStatus \<Rightarrow> turtleHistory" where
  "push lifoStack turtle = lifoStack @ [turtle]"

text \<open>\<open>pop\<close> reads \<open>(*lifoStack)[len(*lifoStack) - 1]\<close>: index \<open>-1\<close> on an empty stack.\<close>

definition pop :: "turtleHistory \<Rightarrow> error + (turtleStatus \<times> turtleHistory)" where
  "pop lifoStack =
     (if lifoStack = [] then Inl Panic_index_out_of_range
      else Inr (last lifoStack, butlast lifoStack))"

text \<open>The four variables \<open>xMin, xMax, yMin, yMax\<close> that a compiler closure keeps.\<close>

record bbox =
  xMin :: real
  xMax :: real
  yMin :: real
  yMax :: real

text \<open>
  The move of \<open>F\<close> and \<open>f\<close>: the \<open>switch\<close> on \<open>math.Mod(turtle.HEADING, 360.)\<close>, which
  \<open>makeLogo2Gnuplot\<close> and \<open>makeLogo2Hpgl\<close> both contain, line for line.
\<close>

definition forward :: "mathlib \<Rightarrow> turtleStatus \<Rightarrow> bbox \<Rightarrow> turtleStatus \<times> bbox" where
  "forward L turtle b =
     (let m = math_Mod (HEADING turtle) 360 in
      if m = 0 then
        (turtle\<lparr>X := X turtle + 1\<rparr>, b\<lparr>xMax := max (xMax b) (X turtle + 1)\<rparr>)
      else if m = 90 \<or> m = - 270 then
        (turtle\<lparr>Y := Y turtle + 1\<rparr>, b\<lparr>yMax := max (yMax b) (Y turtle + 1)\<rparr>)
      else if m = 180 \<or> m = - 180 then
        (turtle\<lparr>X := X turtle - 1\<rparr>, b\<lparr>xMin := min (xMin b) (X turtle - 1)\<rparr>)
      else if m = 270 \<or> m = - 90 then
        (turtle\<lparr>Y := Y turtle - 1\<rparr>, b\<lparr>yMin := min (yMin b) (Y turtle - 1)\<rparr>)
      else
        (let radians = HEADING turtle * degs2rads;
             x = X turtle + Cos L radians;
             y = Y turtle + Sin L radians
         in (turtle\<lparr>X := x, Y := y\<rparr>,
             \<lparr>xMin = min (xMin b) x, xMax = max (xMax b) x,
              yMin = min (yMin b) y, yMax = max (yMax b) y\<rparr>)))"

text \<open>
  \<open>getHeading\<close>: the text from \<open>posLP\<close> on has to match \<^verbatim>\<open>^\(([\+\-0-9.]+?)\)\<close>, that is
  an opening parenthesis, one or more bytes of the class, and a closing parenthesis (which
  is not in the class, so the match is the only one). The result is the parsed heading and
  the position of the closing parenthesis.
\<close>

definition heading_byte :: "char \<Rightarrow> bool" where
  "heading_byte c = (c \<in> set ''+-0123456789.'')"

definition not_well_formed :: error where
  "not_well_formed = Halt ''the specified angle is not syntactically well-formed''"

definition getHeading :: "mathlib \<Rightarrow> string \<Rightarrow> nat \<Rightarrow> error + (real \<times> nat)" where
  "getHeading L cmds posLP =
     (case drop posLP cmds of
        [] \<Rightarrow> Inl not_well_formed
      | c # rest \<Rightarrow>
          (let inner = takeWhile heading_byte rest in
           if c = CHR ''('' \<and> inner \<noteq> [] \<and> take 1 (dropWhile heading_byte rest) = '')'' then
             (case ParseFloat L inner of
                None \<Rightarrow> Inl not_well_formed
              | Some heading \<Rightarrow> Inr (heading, posLP + (length inner + 2) - 1))
           else Inl not_well_formed))"

section \<open>Memory\<close>

text \<open>
  The compilers receive a pointer to the symbol string and write through it, so the strings
  live in a store. Its locations are the exported variable \<open>TurtleCmds\<close>, the variable
  \<open>v\<close> of the \<open>range\<close> loops of \<open>MultiPlot\<close> and \<open>HpglMultiPlot\<close>, and the elements of
  slices that the caller owns.
\<close>

datatype loc = TurtleCmds | Range_v | Elem nat

type_synonym store = "loc \<Rightarrow> string"

section \<open>The compiler to gnuplot commands\<close>

abbreviation dq :: string where
  "dq \<equiv> [CHR 0x22]"

abbreviation nl :: string where
  "nl \<equiv> [CHR 0x0A]"

text \<open>
  The closure of \<open>makeConvert2Gnuplot\<close>: its variable \<open>polygon\<close> is an argument and a
  result. The callers pass four coordinates with \<open>F\<close> and \<open>f\<close>, two with \<open>{\<close> and none
  with \<open>}\<close>, so every \<open>coords[i]\<close> below is within range.
\<close>

definition convert2Gnuplot ::
  "mathlib \<Rightarrow> string \<Rightarrow> string \<Rightarrow> string \<Rightarrow> real list \<Rightarrow> string \<times> string" where
  "convert2Gnuplot L fillColor polygon symbol coords =
     (if symbol = ''{'' then
        ([], ''set object polygon fc rgb '' @ dq @ fillColor @ dq @ '' from '' @
             Sprintf_f L (coords ! 0) @ '','' @ Sprintf_f L (coords ! 1))
      else if symbol = ''}'' then (polygon, [])
      else if polygon \<noteq> [] then
        ([], polygon @ '' to '' @ Sprintf_f L (coords ! 2) @ '','' @ Sprintf_f L (coords ! 3))
      else if symbol = ''F'' then
        (''set arrow as 1 from '' @ Sprintf_f L (coords ! 0) @ '','' @ Sprintf_f L (coords ! 1) @
         '' to '' @ Sprintf_f L (coords ! 2) @ '','' @ Sprintf_f L (coords ! 3), polygon)
      else ([], polygon))"

text \<open>
  The variables of one call of the closure that \<open>makeLogo2Gnuplot\<close> returns. The three
  interpreters of the package share \<open>pos\<close>, \<open>turtle\<close> and \<open>stack\<close>, and the two compilers
  the store and the bounding box, so the records extend one another.
\<close>

record walk =
  pos :: nat
  turtle :: turtleStatus
  stack :: turtleHistory

record pass = walk +
  heap :: store
  box :: bbox

record gnuplot_pass = pass +
  polygon :: string
  plotCmds :: "string list"

text \<open>
  One iteration of the loop \<open>for pos < len(*turtleCmds)\<close>, \<open>pos++\<close> included. In the
  \<open>default\<close> case only \<open>*turtleCmds\<close> is assigned (\<open>pos--\<close> and \<open>pos++\<close> cancel): when the
  replacement finds nothing to drop, the iteration changes nothing.
\<close>

definition gnuplot_step ::
  "mathlib \<Rightarrow> string \<Rightarrow> real \<Rightarrow> loc \<Rightarrow> gnuplot_pass \<Rightarrow> error + gnuplot_pass" where
  "gnuplot_step L lineColor angle turtleCmds s =
     (let symbol = go_string_of_byte (heap s turtleCmds ! pos s) in
      if symbol = ''F'' \<or> symbol = ''f'' then
        (case forward L (turtle s) (box s) of (t, b) \<Rightarrow>
           (case convert2Gnuplot L lineColor (polygon s) symbol
                   [X (turtle s), Y (turtle s), X t, Y t] of (cmd, poly) \<Rightarrow>
              Inr (s\<lparr>turtle := t, box := b, polygon := poly,
                     plotCmds := (if cmd \<noteq> [] then plotCmds s @ [cmd] else plotCmds s),
                     pos := pos s + 1\<rparr>)))
      else if symbol = ''+'' then
        Inr (s\<lparr>turtle := (turtle s)\<lparr>HEADING := HEADING (turtle s) + angle\<rparr>, pos := pos s + 1\<rparr>)
      else if symbol = ''-'' then
        Inr (s\<lparr>turtle := (turtle s)\<lparr>HEADING := HEADING (turtle s) - angle\<rparr>, pos := pos s + 1\<rparr>)
      else if symbol = ''|'' then
        Inr (s\<lparr>turtle := (turtle s)\<lparr>HEADING := HEADING (turtle s) + 180\<rparr>, pos := pos s + 1\<rparr>)
      else if symbol = ''$'' then
        Inr (s\<lparr>turtle := (turtle s)\<lparr>HEADING := 90\<rparr>, pos := pos s + 1\<rparr>)
      else if symbol = ''('' then
        (case getHeading L (heap s turtleCmds) (pos s) of
           Inl e \<Rightarrow> Inl e
         | Inr (heading, posRP) \<Rightarrow>
             Inr (s\<lparr>turtle := (turtle s)\<lparr>HEADING := heading\<rparr>, pos := posRP + 1\<rparr>))
      else if symbol = ''['' then
        Inr (s\<lparr>stack := push (stack s) (turtle s), pos := pos s + 1\<rparr>)
      else if symbol = '']'' then
        (case pop (stack s) of
           Inl e \<Rightarrow> Inl e
         | Inr (t, rest) \<Rightarrow> Inr (s\<lparr>turtle := t, stack := rest, pos := pos s + 1\<rparr>))
      else if symbol = ''{'' then
        (case convert2Gnuplot L lineColor (polygon s) symbol [X (turtle s), Y (turtle s)] of
           (cmd, poly) \<Rightarrow> Inr (s\<lparr>polygon := poly, pos := pos s + 1\<rparr>))
      else if symbol = ''}'' then
        (case convert2Gnuplot L lineColor (polygon s) symbol [] of
           (cmd, poly) \<Rightarrow>
             Inr (s\<lparr>polygon := poly, plotCmds := plotCmds s @ [cmd], pos := pos s + 1\<rparr>))
      else
        (let stripped = delete_all symbol (heap s turtleCmds) in
         if stripped = heap s turtleCmds then Inl Hang
         else Inr (s\<lparr>heap := (heap s)(turtleCmds := stripped)\<rparr>)))"

lemma length_delete_all_le: "length (delete_all old cs) \<le> length cs"
proof (induction old cs rule: delete_all.induct)
  case (1 old)
  show ?case by simp
next
  case (2 old c cs)
  show ?case
  proof (cases "old \<noteq> [] \<and> take (length old) (c # cs) = old")
    case True
    with 2(1) have "length (delete_all old (drop (length old) (c # cs)))
        \<le> length (drop (length old) (c # cs))"
      by blast
    with True show ?thesis by simp
  next
    case False
    with 2(2) show ?thesis by auto
  qed
qed

lemma length_delete_all_less:
  "delete_all old cs \<noteq> cs \<Longrightarrow> length (delete_all old cs) < length cs"
proof (induction old cs rule: delete_all.induct)
  case (1 old)
  then show ?case by simp
next
  case (2 old c cs)
  show ?case
  proof (cases "old \<noteq> [] \<and> take (length old) (c # cs) = old")
    case True
    have "length (delete_all old (drop (length old) (c # cs)))
        \<le> length (drop (length old) (c # cs))"
      by (rule length_delete_all_le)
    moreover from True have "length (drop (length old) (c # cs)) < length (c # cs)"
      by (cases old) auto
    moreover from True
    have "delete_all old (c # cs) = delete_all old (drop (length old) (c # cs))"
      by simp
    ultimately show ?thesis by (metis order_le_less_trans)
  next
    case False
    with 2 show ?thesis by auto
  qed
qed

lemma getHeading_pos: "getHeading L cmds p = Inr (h, q) \<Longrightarrow> p < q"
  by (auto simp: getHeading_def Let_def split: list.splits if_splits option.splits)

lemma gnuplot_step_measure:
  assumes "pos s < length (heap s p)" and "gnuplot_step L lc a p s = Inr s'"
  shows "length (heap s' p) - pos s' + length (heap s' p)
       < length (heap s p) - pos s + length (heap s p)"
  using assms unfolding gnuplot_step_def Let_def
  by (auto split: if_splits prod.splits sum.splits
           dest!: getHeading_pos length_delete_all_less)

text \<open>
  The loop. Each iteration starts with the call of \<open>updateProgressBar\<close>; the measure
  that ends the loop is the length of the string plus what is left of it behind \<open>pos\<close>.
\<close>

function gnuplot_loop ::
  "mathlib \<Rightarrow> string \<Rightarrow> real \<Rightarrow> loc \<Rightarrow> gnuplot_pass \<Rightarrow> error + gnuplot_pass" where
  "gnuplot_loop L lineColor angle turtleCmds s =
     (if pos s < length (heap s turtleCmds) then
        (if updateProgressBar_panics L (pos s) (length (heap s turtleCmds) - 1) then
           Inl Panic_negative_Repeat_count
         else
           (case gnuplot_step L lineColor angle turtleCmds s of
              Inl e \<Rightarrow> Inl e
            | Inr s' \<Rightarrow> gnuplot_loop L lineColor angle turtleCmds s'))
      else Inr s)"
  by pat_completeness auto
termination
proof (relation "measure (\<lambda>(L, lineColor, angle, turtleCmds, s).
        length (heap s turtleCmds) - pos s + length (heap s turtleCmds))", goal_cases)
  case 1
  show ?case by simp
next
  case (2 L lineColor angle turtleCmds s s')
  from gnuplot_step_measure [OF 2(1,3)] show ?case by simp
qed

declare gnuplot_loop.simps [simp del]

text \<open>
  The closure that \<open>makeLogo2Gnuplot\<close> returns, up to the end of its loop. Its bounding
  box \<open>b\<close> outlives the call: it is an argument here and comes back in the result.
\<close>

definition logo2Gnuplot_pass ::
  "mathlib \<Rightarrow> string \<Rightarrow> bbox \<Rightarrow> store \<Rightarrow> loc \<Rightarrow> real \<Rightarrow> real \<Rightarrow> error + gnuplot_pass" where
  "logo2Gnuplot_pass L lineColor b h turtleCmds xOrigin angle =
     gnuplot_loop L lineColor angle turtleCmds
       \<lparr>pos = 0, turtle = \<lparr>HEADING = 0, X = xOrigin, Y = 0\<rparr>, stack = [],
        heap = h(turtleCmds := remove_pointless_turns (h turtleCmds)), box = b,
        polygon = [], plotCmds = []\<rparr>"

definition logo2Gnuplot ::
  "mathlib \<Rightarrow> string \<Rightarrow> bbox \<Rightarrow> store \<Rightarrow> loc \<Rightarrow> real \<Rightarrow> real
     \<Rightarrow> error + (string list \<times> bbox \<times> store)" where
  "logo2Gnuplot L lineColor b h turtleCmds xOrigin angle =
     (case logo2Gnuplot_pass L lineColor b h turtleCmds xOrigin angle of
        Inl e \<Rightarrow> Inl e
      | Inr s \<Rightarrow> Inr (plotCmds s, box s, heap s))"

section \<open>The compiler to HP-GL/2 commands\<close>

text \<open>
  The closure of \<open>makeConvert2Hpgl\<close>: its variable \<open>penCmdPrev\<close> is an argument and the
  second component of the result.
\<close>

definition convert2Hpgl ::
  "mathlib \<Rightarrow> string \<Rightarrow> string \<Rightarrow> real \<Rightarrow> real \<Rightarrow> string \<times> string" where
  "convert2Hpgl L penCmdPrev symbol x y =
     (let penCmd = (if symbol = ''F'' then ''PD'' else ''PU'') in
      if symbol = ''{'' then ('';'' @ nl @ ''PM0;'' @ nl, [])
      else if symbol = ''}'' then ('';'' @ nl @ ''PM2;EP;FP;'' @ nl, [])
      else if penCmdPrev = penCmd then
        ('','' @ Sprintf_f L x @ '','' @ Sprintf_f L y, penCmdPrev)
      else if penCmdPrev \<noteq> [] then
        ('';'' @ nl @ penCmd @ Sprintf_f L x @ '','' @ Sprintf_f L y, penCmd)
      else (penCmd @ Sprintf_f L x @ '','' @ Sprintf_f L y, penCmd))"

record hpgl_pass = pass +
  penCmdPrev :: string
  hpglCmds :: string

text \<open>
  One iteration of the loop of the closure that \<open>makeLogo2Hpgl\<close> returns; \<open>hpglCmds\<close> is
  its string \<open>plotCmds\<close>.
\<close>

definition hpgl_step :: "mathlib \<Rightarrow> real \<Rightarrow> loc \<Rightarrow> hpgl_pass \<Rightarrow> error + hpgl_pass" where
  "hpgl_step L angle turtleCmds s =
     (let symbol = go_string_of_byte (heap s turtleCmds ! pos s) in
      if symbol = ''F'' \<or> symbol = ''f'' then
        (case forward L (turtle s) (box s) of (t, b) \<Rightarrow>
           (case convert2Hpgl L (penCmdPrev s) symbol (X t) (Y t) of (cmd, pen) \<Rightarrow>
              Inr (s\<lparr>turtle := t, box := b, penCmdPrev := pen,
                     hpglCmds := hpglCmds s @ cmd, pos := pos s + 1\<rparr>)))
      else if symbol = ''+'' then
        Inr (s\<lparr>turtle := (turtle s)\<lparr>HEADING := HEADING (turtle s) + angle\<rparr>, pos := pos s + 1\<rparr>)
      else if symbol = ''-'' then
        Inr (s\<lparr>turtle := (turtle s)\<lparr>HEADING := HEADING (turtle s) - angle\<rparr>, pos := pos s + 1\<rparr>)
      else if symbol = ''|'' then
        Inr (s\<lparr>turtle := (turtle s)\<lparr>HEADING := HEADING (turtle s) + 180\<rparr>, pos := pos s + 1\<rparr>)
      else if symbol = ''$'' then
        Inr (s\<lparr>turtle := (turtle s)\<lparr>HEADING := 90\<rparr>, pos := pos s + 1\<rparr>)
      else if symbol = ''('' then
        (case getHeading L (heap s turtleCmds) (pos s) of
           Inl e \<Rightarrow> Inl e
         | Inr (heading, posRP) \<Rightarrow>
             Inr (s\<lparr>turtle := (turtle s)\<lparr>HEADING := heading\<rparr>, pos := posRP + 1\<rparr>))
      else if symbol = ''['' then
        Inr (s\<lparr>stack := push (stack s) (turtle s), pos := pos s + 1\<rparr>)
      else if symbol = '']'' then
        (case pop (stack s) of
           Inl e \<Rightarrow> Inl e
         | Inr (t, rest) \<Rightarrow>
             (case convert2Hpgl L (penCmdPrev s) ''f'' (X t) (Y t) of (cmd, pen) \<Rightarrow>
                Inr (s\<lparr>turtle := t, stack := rest, penCmdPrev := pen,
                       hpglCmds := hpglCmds s @ cmd, pos := pos s + 1\<rparr>)))
      else if symbol = ''{'' \<or> symbol = ''}'' then
        (case convert2Hpgl L (penCmdPrev s) symbol (X (turtle s)) (Y (turtle s)) of
           (cmd, pen) \<Rightarrow>
             Inr (s\<lparr>penCmdPrev := pen, hpglCmds := hpglCmds s @ cmd, pos := pos s + 1\<rparr>))
      else
        (let stripped = delete_all symbol (heap s turtleCmds) in
         if stripped = heap s turtleCmds then Inl Hang
         else Inr (s\<lparr>heap := (heap s)(turtleCmds := stripped)\<rparr>)))"

lemma hpgl_step_measure:
  assumes "pos s < length (heap s p)" and "hpgl_step L a p s = Inr s'"
  shows "length (heap s' p) - pos s' + length (heap s' p)
       < length (heap s p) - pos s + length (heap s p)"
  using assms unfolding hpgl_step_def Let_def
  by (auto split: if_splits prod.splits sum.splits
           dest!: getHeading_pos length_delete_all_less)

function hpgl_loop :: "mathlib \<Rightarrow> real \<Rightarrow> loc \<Rightarrow> hpgl_pass \<Rightarrow> error + hpgl_pass" where
  "hpgl_loop L angle turtleCmds s =
     (if pos s < length (heap s turtleCmds) then
        (if updateProgressBar_panics L (pos s) (length (heap s turtleCmds) - 1) then
           Inl Panic_negative_Repeat_count
         else
           (case hpgl_step L angle turtleCmds s of
              Inl e \<Rightarrow> Inl e
            | Inr s' \<Rightarrow> hpgl_loop L angle turtleCmds s'))
      else Inr s)"
  by pat_completeness auto
termination
proof (relation "measure (\<lambda>(L, angle, turtleCmds, s).
        length (heap s turtleCmds) - pos s + length (heap s turtleCmds))", goal_cases)
  case 1
  show ?case by simp
next
  case (2 L angle turtleCmds s s')
  from hpgl_step_measure [OF 2(1,3)] show ?case by simp
qed

declare hpgl_loop.simps [simp del]

definition logo2Hpgl_pass ::
  "mathlib \<Rightarrow> bbox \<Rightarrow> store \<Rightarrow> loc \<Rightarrow> real \<Rightarrow> real \<Rightarrow> error + hpgl_pass" where
  "logo2Hpgl_pass L b h turtleCmds xOrigin angle =
     (case convert2Hpgl L [] ''f'' xOrigin 0 of (cmd, pen) \<Rightarrow>
        hpgl_loop L angle turtleCmds
          \<lparr>pos = 0, turtle = \<lparr>HEADING = 0, X = xOrigin, Y = 0\<rparr>, stack = [],
           heap = h(turtleCmds := remove_pointless_turns (h turtleCmds)), box = b,
           penCmdPrev = pen, hpglCmds = cmd\<rparr>)"

definition logo2Hpgl ::
  "mathlib \<Rightarrow> bbox \<Rightarrow> store \<Rightarrow> loc \<Rightarrow> real \<Rightarrow> real \<Rightarrow> error + (string \<times> bbox \<times> store)" where
  "logo2Hpgl L b h turtleCmds xOrigin angle =
     (case logo2Hpgl_pass L b h turtleCmds xOrigin angle of
        Inl e \<Rightarrow> Inl e
      | Inr s \<Rightarrow> Inr (hpglCmds s @ '';'', box s, heap s))"

section \<open>The layout of subplots\<close>

text \<open>
  The coroutine \<open>calcXoffset\<close> answers each string it receives with the offset for that
  subplot. Its variables \<open>stack\<close> and \<open>turtle\<close> are declared outside its loop over the
  channel and so live from one request to the next; the string is the coroutine's own
  variable and not in the store. The exchange over channels is a call here.
\<close>

record dry_pass = walk +
  cmds :: string
  xMin' :: real

definition dry_forward :: "mathlib \<Rightarrow> turtleStatus \<Rightarrow> real \<Rightarrow> turtleStatus \<times> real" where
  "dry_forward L t xm =
     (let m = math_Mod (HEADING t) 360 in
      if m = 0 then (t\<lparr>X := X t + 1\<rparr>, xm)
      else if m = 90 \<or> m = - 270 then (t, xm)
      else if m = 180 \<or> m = - 180 then (t\<lparr>X := X t - 1\<rparr>, min xm (X t - 1))
      else if m = 270 \<or> m = - 90 then (t, xm)
      else
        (let x = X t + Cos L (HEADING t * degs2rads)
         in (t\<lparr>X := x\<rparr>, min xm x)))"

definition dry_step :: "mathlib \<Rightarrow> real \<Rightarrow> dry_pass \<Rightarrow> error + dry_pass" where
  "dry_step L angle s =
     (let symbol = go_string_of_byte (cmds s ! pos s) in
      if symbol = ''F'' \<or> symbol = ''f'' then
        (case dry_forward L (turtle s) (xMin' s) of (t, xm) \<Rightarrow>
           Inr (s\<lparr>turtle := t, xMin' := xm, pos := pos s + 1\<rparr>))
      else if symbol = ''+'' then
        Inr (s\<lparr>turtle := (turtle s)\<lparr>HEADING := HEADING (turtle s) + angle\<rparr>, pos := pos s + 1\<rparr>)
      else if symbol = ''-'' then
        Inr (s\<lparr>turtle := (turtle s)\<lparr>HEADING := HEADING (turtle s) - angle\<rparr>, pos := pos s + 1\<rparr>)
      else if symbol = ''|'' then
        Inr (s\<lparr>turtle := (turtle s)\<lparr>HEADING := HEADING (turtle s) + 180\<rparr>, pos := pos s + 1\<rparr>)
      else if symbol = ''$'' then
        Inr (s\<lparr>turtle := (turtle s)\<lparr>HEADING := 90\<rparr>, pos := pos s + 1\<rparr>)
      else if symbol = ''('' then
        (case getHeading L (cmds s) (pos s) of
           Inl e \<Rightarrow> Inl e
         | Inr (heading, posRP) \<Rightarrow>
             Inr (s\<lparr>turtle := (turtle s)\<lparr>HEADING := heading\<rparr>, pos := posRP + 1\<rparr>))
      else if symbol = ''['' then
        Inr (s\<lparr>stack := push (stack s) (turtle s), pos := pos s + 1\<rparr>)
      else if symbol = '']'' then
        (case pop (stack s) of
           Inl e \<Rightarrow> Inl e
         | Inr (t, rest) \<Rightarrow> Inr (s\<lparr>turtle := t, stack := rest, pos := pos s + 1\<rparr>))
      else if symbol = ''{'' \<or> symbol = ''}'' then Inr (s\<lparr>pos := pos s + 1\<rparr>)
      else
        (let stripped = delete_all symbol (cmds s) in
         if stripped = cmds s then Inl Hang else Inr (s\<lparr>cmds := stripped\<rparr>)))"

lemma dry_step_measure:
  assumes "pos s < length (cmds s)" and "dry_step L a s = Inr s'"
  shows "length (cmds s') - pos s' + length (cmds s') < length (cmds s) - pos s + length (cmds s)"
  using assms unfolding dry_step_def Let_def
  by (auto split: if_splits prod.splits sum.splits
           dest!: getHeading_pos length_delete_all_less)

function dry_loop :: "mathlib \<Rightarrow> real \<Rightarrow> dry_pass \<Rightarrow> error + dry_pass" where
  "dry_loop L angle s =
     (if pos s < length (cmds s) then
        (case dry_step L angle s of
           Inl e \<Rightarrow> Inl e
         | Inr s' \<Rightarrow> dry_loop L angle s')
      else Inr s)"
  by pat_completeness auto
termination
proof (relation "measure (\<lambda>(L, angle, s). length (cmds s) - pos s + length (cmds s))",
    goal_cases)
  case 1
  show ?case by simp
next
  case (2 L angle s s')
  from dry_step_measure [OF 2] show ?case by simp
qed

declare dry_loop.simps [simp del]

definition xNudge :: real where
  "xNudge = 2"

text \<open>
  The body of the loop of the coroutine: the walk over one string, from the string and the
  angle received to the state in which the offset is sent.
\<close>

definition calcXoffset_walk ::
  "mathlib \<Rightarrow> turtleStatus \<times> turtleHistory \<Rightarrow> string \<Rightarrow> real \<Rightarrow> error + dry_pass" where
  "calcXoffset_walk L co turtleCmds angle =
     dry_loop L angle
       \<lparr>pos = 0, turtle = (fst co)\<lparr>HEADING := 0, X := 0\<rparr>, stack = snd co,
        cmds = remove_pointless_turns turtleCmds, xMin' = 0\<rparr>"

definition calcXoffset ::
  "mathlib \<Rightarrow> turtleStatus \<times> turtleHistory \<Rightarrow> string \<Rightarrow> real
     \<Rightarrow> error + (real \<times> turtleStatus \<times> turtleHistory)" where
  "calcXoffset L co turtleCmds angle =
     (case calcXoffset_walk L co turtleCmds angle of
        Inl e \<Rightarrow> Inl e
      | Inr s \<Rightarrow> Inr (\<bar>xMin' s\<bar> + xNudge, turtle s, stack s))"

text \<open>
  The variables of the loops \<open>for k, v := range turtleCmds\<close> of \<open>MultiPlot\<close> and
  \<open>HpglMultiPlot\<close>: the store, the bounding box that the compiler closure keeps (which is
  also the value of \<open>xMin, xMax, yMin, yMax\<close> after each call), the variables of the
  coroutine, \<open>xOrigin\<close>, and the commands collected so far.
\<close>

record 'c layout =
  layout_heap :: store
  layout_box :: bbox
  layout_coroutine :: "turtleStatus \<times> turtleHistory"
  xOrigin :: real
  layout_cmds :: 'c

text \<open>
  The request to the coroutine at the head of the loop body, with its answer, which the
  body reads at its end: the offset for subplot \<open>k + 1\<close>, when there is one. The coroutine
  runs beside the compilation of subplot \<open>k\<close>; here its walk comes first.
\<close>

definition next_offset ::
  "mathlib \<Rightarrow> loc list \<Rightarrow> real list \<Rightarrow> nat \<Rightarrow> 'c layout
     \<Rightarrow> error + (real option \<times> turtleStatus \<times> turtleHistory)" where
  "next_offset L turtleCmds turtleAngles k st =
     (if k + 1 < length turtleCmds then
        (case calcXoffset L (layout_coroutine st) (layout_heap st (turtleCmds ! (k + 1)))
                (turtleAngles ! (k + 1)) of
           Inl e \<Rightarrow> Inl e
         | Inr (xOffset, co) \<Rightarrow> Inr (Some xOffset, co))
      else Inr (None, layout_coroutine st))"

definition MultiPlot_body ::
  "mathlib \<Rightarrow> string \<Rightarrow> loc list \<Rightarrow> real list \<Rightarrow> string list \<Rightarrow> nat
     \<Rightarrow> string list layout \<Rightarrow> error + string list layout" where
  "MultiPlot_body L lineColor turtleCmds turtleAngles labels k st =
     (case next_offset L turtleCmds turtleAngles k st of
        Inl e \<Rightarrow> Inl e
      | Inr (xOffset, co) \<Rightarrow>
          (let labelled =
                 (if labels ! k \<noteq> [] then
                    layout_cmds st @
                      [''set label '' @ dq @ labels ! k @ dq @ '' at '' @
                       Sprintf_f L (xOrigin st) @ '',character 1 center front tc rgb '' @
                       dq @ lineColor @ dq]
                  else layout_cmds st);
               h = (layout_heap st)(Range_v := layout_heap st (turtleCmds ! k))
           in case logo2Gnuplot L lineColor (layout_box st) h Range_v (xOrigin st)
                     (turtleAngles ! k) of
                Inl e \<Rightarrow> Inl e
              | Inr (drawCmds, b, h') \<Rightarrow>
                  Inr \<lparr>layout_heap = h', layout_box = b, layout_coroutine = co,
                       xOrigin = (case xOffset of
                                    Some off \<Rightarrow> xMax b + off
                                  | None \<Rightarrow> xOrigin st),
                       layout_cmds = labelled @ drawCmds\<rparr>))"

function MultiPlot_range ::
  "mathlib \<Rightarrow> string \<Rightarrow> loc list \<Rightarrow> real list \<Rightarrow> string list \<Rightarrow> nat
     \<Rightarrow> string list layout \<Rightarrow> error + string list layout" where
  "MultiPlot_range L lineColor turtleCmds turtleAngles labels k st =
     (if k < length turtleCmds then
        (case MultiPlot_body L lineColor turtleCmds turtleAngles labels k st of
           Inl e \<Rightarrow> Inl e
         | Inr st' \<Rightarrow> MultiPlot_range L lineColor turtleCmds turtleAngles labels (Suc k) st')
      else Inr st)"
  by pat_completeness auto
termination
  by (relation "measure (\<lambda>(L, lineColor, turtleCmds, turtleAngles, labels, k, st).
        length turtleCmds - k)") auto

declare MultiPlot_range.simps [simp del]

definition HpglMultiPlot_body ::
  "mathlib \<Rightarrow> loc list \<Rightarrow> real list \<Rightarrow> string list \<Rightarrow> nat
     \<Rightarrow> string layout \<Rightarrow> error + string layout" where
  "HpglMultiPlot_body L turtleCmds turtleAngles labels k st =
     (case next_offset L turtleCmds turtleAngles k st of
        Inl e \<Rightarrow> Inl e
      | Inr (xOffset, co) \<Rightarrow>
          (let labelled =
                 (if labels ! k \<noteq> [] then
                    layout_cmds st @ ''PU'' @ Sprintf_f L (xOrigin st) @ '','' @
                      Sprintf_f L (- 1) @ '';LO16;LB'' @ labels ! k @ [CHR 0x03] @ '';'' @ nl
                  else layout_cmds st);
               h = (layout_heap st)(Range_v := layout_heap st (turtleCmds ! k))
           in case logo2Hpgl L (layout_box st) h Range_v (xOrigin st) (turtleAngles ! k) of
                Inl e \<Rightarrow> Inl e
              | Inr (drawCmds, b, h') \<Rightarrow>
                  Inr \<lparr>layout_heap = h', layout_box = b, layout_coroutine = co,
                       xOrigin = (case xOffset of
                                    Some off \<Rightarrow> xMax b + off
                                  | None \<Rightarrow> xOrigin st),
                       layout_cmds = labelled @ drawCmds\<rparr>))"

function HpglMultiPlot_range ::
  "mathlib \<Rightarrow> loc list \<Rightarrow> real list \<Rightarrow> string list \<Rightarrow> nat
     \<Rightarrow> string layout \<Rightarrow> error + string layout" where
  "HpglMultiPlot_range L turtleCmds turtleAngles labels k st =
     (if k < length turtleCmds then
        (case HpglMultiPlot_body L turtleCmds turtleAngles labels k st of
           Inl e \<Rightarrow> Inl e
         | Inr st' \<Rightarrow> HpglMultiPlot_range L turtleCmds turtleAngles labels (Suc k) st')
      else Inr st)"
  by pat_completeness auto
termination
  by (relation "measure (\<lambda>(L, turtleCmds, turtleAngles, labels, k, st).
        length turtleCmds - k)") auto

declare HpglMultiPlot_range.simps [simp del]

section \<open>The exported plot functions\<close>

text \<open>
  The table \<open>_colorNames\<close> and the text \<open>_validColors\<close> are filled by \<open>init\<close> from the
  output of the gnuplot executable: parameters here.
\<close>

record palette =
  colorNames :: "string list"
  validColors :: string

definition validFgColor :: "palette \<Rightarrow> string \<Rightarrow> bool" where
  "validFgColor P fgColor =
     (if fgColor = [] then False
      else if CHR ''#'' \<in> set fgColor then
        (length fgColor = 7 \<and> hd fgColor = CHR ''#'' \<and>
         list_all (\<lambda>c. c \<in> set ''abcdefABCDEF0123456789'') (tl fgColor))
      else fgColor \<in> set (colorNames P))"

definition color_not_valid :: "palette \<Rightarrow> string \<Rightarrow> error" where
  "color_not_valid P lineColor =
     Halt (''the color name '' @ [CHR 0x27] @ lineColor @ [CHR 0x27] @
           '' is not valid. Recognized names are:'' @ nl @ nl @ validColors P)"

definition zero_box :: bbox where
  "zero_box = \<lparr>xMin = 0, xMax = 0, yMin = 0, yMax = 0\<rparr>"

text \<open>
  The four functions below return what they hand to the outside (the commands sent to
  gnuplot, or the text written to \<open>hpglPath\<close>) and the store as they leave it. Failures of
  the gnuplot process and of the file system are not modelled.
\<close>

definition Plot ::
  "mathlib \<Rightarrow> palette \<Rightarrow> store \<Rightarrow> real \<Rightarrow> string \<Rightarrow> string \<Rightarrow> string \<Rightarrow> string
     \<Rightarrow> error + (string list \<times> store)" where
  "Plot L P h angle terminalCmd outputCmd plotTitle lineColor =
     (if h TurtleCmds = [] then Inl (Halt ''the turtle commands were not generated'')
      else if angle = 0 then Inl (Halt ''the production angle is zero'')
      else if \<not> validFgColor P lineColor then Inl (color_not_valid P lineColor)
      else
        (let tmargin = (if plotTitle \<noteq> [] then ''2'' else ''1'');
             setup =
               [terminalCmd, outputCmd, ''unset border'', ''unset border'', ''unset tics'',
                ''set bmargin 1'', ''set tmargin '' @ tmargin, ''set rmargin 1'',
                ''set lmargin 1'', ''set size square'', ''set autoscale fix'',
                ''set style fill solid 1.0 border rgb '' @ dq @ lineColor @ dq,
                ''set style arrow 1 nohead lc rgb '' @ dq @ lineColor @ dq] @
               (if plotTitle \<noteq> [] then
                  [''set title '' @ dq @ plotTitle @ dq @ '' tc rgb '' @ dq @ lineColor @ dq]
                else [])
         in case logo2Gnuplot L lineColor zero_box h TurtleCmds 0 angle of
              Inl e \<Rightarrow> Inl e
            | Inr (drawCmds, b, h') \<Rightarrow>
                (let xSpan = xMax b - xMin b;
                     ySpan = yMax b - yMin b;
                     maxSpan = max xSpan ySpan;
                     xOffset = 0.5 * (maxSpan - xSpan);
                     yOffset = 0.5 * (maxSpan - ySpan)
                 in Inr (setup @ drawCmds @
                         [''set xrange ['' @ Sprintf_f L (xMin b) @ '':'' @
                            Sprintf_f L (xMax b) @ '']'',
                          ''set yrange ['' @ Sprintf_f L (yMin b) @ '':'' @
                            Sprintf_f L (yMax b) @ '']'',
                          ''set offset '' @ Sprintf_f L xOffset @ '','' @ Sprintf_f L xOffset @
                            '','' @ Sprintf_f L yOffset @ '','' @ Sprintf_f L yOffset,
                          ''set parametric'',
                          ''plot 0,0 notitle lc rgb '' @ dq @ lineColor @ dq @ '' lw 0'',
                          ''quit''], h'))))"

definition MultiPlot ::
  "mathlib \<Rightarrow> palette \<Rightarrow> store \<Rightarrow> loc list \<Rightarrow> real list \<Rightarrow> string \<Rightarrow> string \<Rightarrow> string
     \<Rightarrow> string list \<Rightarrow> string \<Rightarrow> error + (string list \<times> store)" where
  "MultiPlot L P h turtleCmds turtleAngles terminalCmd outputCmd plotTitle labels lineColor =
     (if length turtleCmds = 0 then Inl (Halt ''the turtle commands were not specified'')
      else if length turtleAngles = 0 then Inl (Halt ''the turtle angles were not stated'')
      else if length labels = 0 then Inl (Halt ''the labels were not specified'')
      else if length turtleAngles < length turtleCmds then
        Inl (Halt ''fewer turtle angles specified than the number of commands'')
      else if length labels < length turtleCmds then
        Inl (Halt ''fewer labels specified than the number of commands'')
      else if \<not> validFgColor P lineColor then Inl (color_not_valid P lineColor)
      else
        (let bmargin = (if concat labels \<noteq> [] then ''2'' else ''1'');
             tmargin = (if plotTitle \<noteq> [] then ''2'' else ''1'');
             setup =
               [terminalCmd, outputCmd, ''unset border'', ''unset tics'',
                ''set bmargin '' @ bmargin, ''set tmargin '' @ tmargin, ''set rmargin 1'',
                ''set lmargin 1'', ''set autoscale fix'',
                ''set style fill solid 1.0 border rgb '' @ dq @ lineColor @ dq,
                ''set style arrow 1 nohead lc rgb '' @ dq @ lineColor @ dq] @
               (if plotTitle \<noteq> [] then
                  [''set title '' @ dq @ plotTitle @ dq @ '' tc rgb '' @ dq @ lineColor @ dq]
                else [])
         in case MultiPlot_range L lineColor turtleCmds turtleAngles labels 0
                   \<lparr>layout_heap = h, layout_box = zero_box,
                    layout_coroutine = (\<lparr>HEADING = 0, X = 0, Y = 0\<rparr>, []), xOrigin = 0,
                    layout_cmds = setup\<rparr> of
              Inl e \<Rightarrow> Inl e
            | Inr st \<Rightarrow>
                (let b = layout_box st
                 in Inr (layout_cmds st @
                         [''set xrange ['' @ Sprintf_f L (xMin b) @ '':'' @
                            Sprintf_f L (xMax b) @ '']'',
                          ''set yrange ['' @ Sprintf_f L (yMin b) @ '':'' @
                            Sprintf_f L (yMax b) @ '']'',
                          ''set parametric'',
                          ''plot 0,0 notitle lc rgb '' @ dq @ lineColor @ dq @ '' lw 0'',
                          ''quit''], layout_heap st))))"

definition HpglPlot ::
  "mathlib \<Rightarrow> store \<Rightarrow> real \<Rightarrow> string \<Rightarrow> real \<Rightarrow> string \<Rightarrow> error + (string \<times> store)" where
  "HpglPlot L h angle plotTitle penWidth hpglPath =
     (if h TurtleCmds = [] then Inl (Halt ''the turtle commands were not generated'')
      else if angle = 0 then Inl (Halt ''the production angle is zero'')
      else if hpglPath = [] then Inl (Halt ''the path for the plot was not specified'')
      else
        (let minMargin = 0.1;
             maxMargin = 3.0;
             rmargin = minMargin;
             lmargin = 100 - minMargin;
             bmargin = minMargin;
             tmargin = (if plotTitle \<noteq> [] then 100 - maxMargin else 100 - minMargin)
         in case logo2Hpgl L zero_box h TurtleCmds 0 angle of
              Inl e \<Rightarrow> Inl e
            | Inr (drawCmds, b, h') \<Rightarrow>
                (let xSpan = xMax b - xMin b;
                     ySpan = yMax b - yMin b;
                     maxSpan = max xSpan ySpan;
                     xOffset = 0.5 * (maxSpan - xSpan);
                     yOffset = 0.5 * (maxSpan - ySpan);
                     xLo = xMin b - xOffset;
                     xHi = xMax b + xOffset;
                     yLo = yMin b - yOffset;
                     yHi = yMax b + yOffset;
                     body =
                       [CHR 0x1B] @ ''%-1BBPIN;'' @ nl @
                       ''IR'' @ Sprintf_f L rmargin @ '','' @ Sprintf_f L bmargin @ '','' @
                         Sprintf_f L lmargin @ '','' @ Sprintf_f L tmargin @ '';'' @ nl @
                       ''SC'' @ Sprintf_f L xLo @ '','' @ Sprintf_f L xHi @ '','' @
                         Sprintf_f L yLo @ '','' @ Sprintf_f L yHi @ '',1;'' @ nl @
                       ''SP1;WU0;PW'' @ Sprintf_f L penWidth @ '';'' @ nl @
                       drawCmds @ nl;
                     title =
                       (if plotTitle \<noteq> [] then
                          ''IR;IR'' @ Sprintf_f L rmargin @ '','' @ Sprintf_f L bmargin @ '','' @
                            Sprintf_f L lmargin @ '','' @ Sprintf_f L (100 - minMargin) @
                            '';'' @ nl @
                          ''SC'' @ Sprintf_f L xLo @ '','' @ Sprintf_f L xHi @ '','' @
                            Sprintf_f L yLo @ '','' @ Sprintf_f L yHi @ '',0;'' @ nl @
                          ''PU'' @ Sprintf_f L (0.5 * (xLo + xHi)) @ '','' @ Sprintf_f L yHi @
                            '';LO6;LB'' @ plotTitle @ [CHR 0x03] @ '';'' @ nl
                        else [])
                 in Inr (body @ title @ ''PG;'' @ nl, h'))))"

definition HpglMultiPlot ::
  "mathlib \<Rightarrow> store \<Rightarrow> loc list \<Rightarrow> real list \<Rightarrow> string \<Rightarrow> string list \<Rightarrow> real \<Rightarrow> string
     \<Rightarrow> error + (string \<times> store)" where
  "HpglMultiPlot L h turtleCmds turtleAngles plotTitle labels penWidth hpglPath =
     (if length turtleCmds = 0 then Inl (Halt ''the turtle commands were not specified'')
      else if length turtleAngles = 0 then Inl (Halt ''the turtle angles were not stated'')
      else if length labels = 0 then Inl (Halt ''the labels were not specified'')
      else if length turtleAngles < length turtleCmds then
        Inl (Halt ''fewer turtle angles specified than the number of commands'')
      else if length labels < length turtleCmds then
        Inl (Halt ''fewer labels specified than the number of commands'')
      else if hpglPath = [] then Inl (Halt ''the path for the plot was not specified'')
      else
        (let minMargin = 0.1;
             maxMargin = 3.0;
             yNudge = 1.0;
             rmargin = minMargin;
             lmargin = 100 - minMargin;
             bmargin = (if concat labels \<noteq> [] then maxMargin else minMargin);
             tmargin = (if plotTitle \<noteq> [] then 100 - maxMargin else 100 - minMargin)
         in case HpglMultiPlot_range L turtleCmds turtleAngles labels 0
                   \<lparr>layout_heap = h, layout_box = zero_box,
                    layout_coroutine = (\<lparr>HEADING = 0, X = 0, Y = 0\<rparr>, []), xOrigin = 0,
                    layout_cmds = []\<rparr> of
              Inl e \<Rightarrow> Inl e
            | Inr st \<Rightarrow>
                (let b = layout_box st;
                     body =
                       [CHR 0x1B] @ ''%-1BBPIN;'' @ nl @
                       ''RO90;'' @ nl @
                       ''IR'' @ Sprintf_f L rmargin @ '','' @ Sprintf_f L bmargin @ '','' @
                         Sprintf_f L lmargin @ '','' @ Sprintf_f L tmargin @ '';'' @ nl @
                       ''SC'' @ Sprintf_f L (xMin b) @ '','' @ Sprintf_f L (xMax b) @ '','' @
                         Sprintf_f L (yMin b) @ '','' @ Sprintf_f L (yMax b) @ '',0;'' @ nl @
                       ''SP1;WU0;PW'' @ Sprintf_f L penWidth @ '';'' @ nl @
                       layout_cmds st @ nl;
                     title =
                       (if plotTitle \<noteq> [] then
                          ''PU'' @ Sprintf_f L (0.5 * (xMin b + xMax b)) @ '','' @
                            Sprintf_f L (yMax b + yNudge) @ '';LO14;LB'' @ plotTitle @
                            [CHR 0x03] @ '';'' @ nl
                        else [])
                 in Inr (body @ title @ ''PG;'', layout_heap st))))"

section \<open>A library for closed examples\<close>

text \<open>
  Where an example needs the library functions themselves, it uses these: the cosine and
  the sine of the reals; the verb \<^verbatim>\<open>%f\<close>, which prints the sign, the whole part and six
  decimals of the value rounded to the nearest millionth, ties to the even neighbour;
  \<open>strconv.ParseFloat\<close> on the texts that \<open>getHeading\<close> can pass to it, a sign, digits
  and one point, with its range error; and for \<open>int\<close> of a value that is not a number the
  least 64-bit integer, the result on amd64.
\<close>

definition digit :: "nat \<Rightarrow> char" where
  "digit d = ''0123456789'' ! d"

fun decimal :: "nat \<Rightarrow> string" where
  "decimal n = (if n < 10 then [digit n] else decimal (n div 10) @ [digit (n mod 10)])"

declare decimal.simps [simp del]

definition round_half_even :: "real \<Rightarrow> int" where
  "round_half_even x =
     (let q = \<lfloor>x\<rfloor>; r = x - of_int q
      in if r < 1 / 2 then q else if 1 / 2 < r then q + 1 else if even q then q else q + 1)"

definition sprintf_f :: "real \<Rightarrow> string" where
  "sprintf_f x =
     (let n = nat (round_half_even (\<bar>x\<bar> * 1000000))
      in (if x < 0 then ''-'' else []) @ decimal (n div 1000000) @ ''.'' @
         [digit (n div 100000 mod 10), digit (n div 10000 mod 10),
          digit (n div 1000 mod 10), digit (n div 100 mod 10),
          digit (n div 10 mod 10), digit (n mod 10)])"

definition digit_byte :: "char \<Rightarrow> bool" where
  "digit_byte c = (c \<in> set ''0123456789'')"

fun digits_value :: "nat \<Rightarrow> string \<Rightarrow> nat" where
  "digits_value acc [] = acc"
| "digits_value acc (c # cs) =
     digits_value (10 * acc + length (takeWhile (\<lambda>d. d \<noteq> c) ''0123456789'')) cs"

definition parse_float :: "string \<Rightarrow> real option" where
  "parse_float s =
     (let negative = (take 1 s = ''-'');
          body = (if take 1 s = ''-'' \<or> take 1 s = ''+'' then drop 1 s else s);
          whole = takeWhile digit_byte body;
          rest = dropWhile digit_byte body;
          fraction = drop 1 rest;
          v = real (digits_value 0 (whole @ fraction)) / 10 ^ length fraction
      in if (rest \<noteq> [] \<and> take 1 rest \<noteq> ''.'') \<or> \<not> list_all digit_byte fraction \<or>
            whole @ fraction = [] \<or> 2 ^ 1024 - 2 ^ 970 \<le> v
         then None
         else Some (if negative then - v else v))"

definition reference_lib :: mathlib where
  "reference_lib =
     \<lparr>Cos = cos, Sin = sin, ParseFloat = parse_float, Sprintf_f = sprintf_f,
      int_of_NaN = - (2 ^ 63)\<rparr>"

section \<open>Notions used in the statements\<close>




text \<open>
  \<open>nesting d cs\<close> is the depth of nesting behind \<open>cs\<close> when it is \<open>d\<close> in front of it,
  and \<open>None\<close> when some \<open>]\<close> of \<open>cs\<close> closes a branch that was never opened.
\<close>

fun nesting :: "nat \<Rightarrow> string \<Rightarrow> nat option" where
  "nesting d [] = Some d"
| "nesting d (c # cs) =
     (if c = CHR ''['' then nesting (Suc d) cs
      else if c = CHR '']'' then (case d of 0 \<Rightarrow> None | Suc d' \<Rightarrow> nesting d' cs)
      else nesting d cs)"

definition balanced :: "string \<Rightarrow> bool" where
  "balanced cs = (nesting 0 cs = Some 0)"

definition swap_turn :: "char \<Rightarrow> char" where
  "swap_turn c = (if c = CHR ''+'' then CHR ''-'' else if c = CHR ''-'' then CHR ''+'' else c)"

text \<open>The alphabet of \<open>HogewegHesper\<close>.\<close>

definition hh_symbol :: "char \<Rightarrow> bool" where
  "hh_symbol c = (c \<in> set ''01F+-$[]'')"





text \<open>
  The symbols that the compilers interpret one byte at a time, and the strings on which a
  pass can be followed byte by byte: bytes below 128 and no heading directive.
\<close>

definition drawing_constant :: "char \<Rightarrow> bool" where
  "drawing_constant c = (c \<in> set ''Ff+-|$[]{}'')"

definition plain_symbols :: "string \<Rightarrow> bool" where
  "plain_symbols cs = (list_all (\<lambda>c. (of_char c :: nat) < 128) cs \<and> CHR ''('' \<notin> set cs)"

text \<open>What a pass leaves of such a string.\<close>

definition stripped :: "string \<Rightarrow> string" where
  "stripped cs = filter drawing_constant (remove_pointless_turns cs)"

text \<open>
  What one iteration of a compiler does to the string and to \<open>pos\<close>: it steps over a
  drawing constant, and it removes every occurrence of any other symbol and stays.
\<close>

definition advance :: "string \<Rightarrow> nat \<Rightarrow> string \<Rightarrow> nat \<Rightarrow> bool" where
  "advance cs n cs' n' =
     (if drawing_constant (cs ! n) then cs' = cs \<and> n' = n + 1
      else cs' = filter (\<lambda>d. d \<noteq> cs ! n) cs \<and> n' = n)"

text \<open>A store for the examples, and a palette without names.\<close>

definition store0 :: store where
  "store0 = (\<lambda>l. [])(TurtleCmds := ''F+-XFX'', Elem 0 := ''FX'', Elem 1 := ''F+-F'')"

definition no_names :: palette where
  "no_names = \<lparr>colorNames = [], validColors = []\<rparr>"

text \<open>
  The bounding box of one subplot as the specification has it, seeded at the origin of the
  turtle: the box that the compiler returns for the string on its own when its four bounds
  start at the point \<open>(xOrigin, 0)\<close>. The closure of \<open>makeLogo2Gnuplot\<close> itself starts
  its bounds at zero when it is made and keeps them from one subplot to the next.
\<close>

definition spec_subplot_box ::
  "mathlib \<Rightarrow> string \<Rightarrow> string \<Rightarrow> real \<Rightarrow> real \<Rightarrow> error + bbox" where
  "spec_subplot_box L lineColor turtleCmds xOrigin' angle =
     map_sum id (fst \<circ> snd)
       (logo2Gnuplot L lineColor \<lparr>xMin = xOrigin', xMax = xOrigin', yMin = 0, yMax = 0\<rparr>
          (\<lambda>l. turtleCmds) Range_v xOrigin' angle)"

text \<open>Three subplots: two lines to the right, between them the same line to the left.\<close>

definition three_lines :: store where
  "three_lines = (\<lambda>l. [])(Elem 0 := ''FF'', Elem 1 := ''|FF'', Elem 2 := ''FF'')"

section \<open>Properties of the stochastic engine\<close>

text \<open>
  Claim C1. With more weights than rules the surplus weights are not ignored: the lottery
  holds a slot for each of them, and drawing such a slot reads \<open>rules\<close> behind its end.
  For order 1, axiom \<open>F\<close>, the one rule \<open>A\<close>, the weights 1 and 1, and a generator whose
  next draw is 1, the derivation ends in the panic of an index out of range.
\<close>

theorem Stochastic_surplus_weight_panics:
  "Stochastic list_intn 1 ''F'' [''A''] [1, 1] [1] = Inl Panic_index_out_of_range"
  by (simp add: Stochastic_def)







section \<open>Properties of the context-sensitive engine\<close>

lemma nesting_append:
  "nesting d (xs @ ys) = (case nesting d xs of None \<Rightarrow> None | Some e \<Rightarrow> nesting e ys)"
  by (induction xs arbitrary: d) (auto split: nat.splits)

text \<open>
  The search to the right succeeds when the branches open in front of the text, together
  with the \<open>u\<close> side branches being skipped, are all closed within the text.
\<close>

lemma rhs_search_succeeds:
  "nesting (d + u) cs = Some 0 \<Longrightarrow> list_all hh_symbol cs \<Longrightarrow> \<exists>r. rhs_search u cs = Inr r"
proof (induction cs arbitrary: d u)
  case Nil
  then show ?case by simp
next
  case (Cons c cs)
  show ?case
  proof (cases u)
    case 0
    with Cons.prems Cons.IH [of d 0] Cons.IH [of "Suc d" 0] Cons.IH [of d 1] show ?thesis
      by (auto simp: hh_symbol_def split: if_splits nat.splits)
  next
    case (Suc u')
    with Cons.prems Cons.IH [of d "Suc (Suc u')"] Cons.IH [of d u'] Cons.IH [of d u]
    show ?thesis
      by (auto simp: hh_symbol_def split: if_splits)
  qed
qed

text \<open>
  The search to the left succeeds on a text in which every \<open>]\<close> has its \<open>[\<close>, as long
  as the \<open>u\<close> branches being skipped do not outnumber the branches the text leaves open.
\<close>

lemma lhs_search_succeeds:
  "nesting 0 xs = Some e \<Longrightarrow> u \<le> e \<Longrightarrow> list_all hh_symbol xs
     \<Longrightarrow> \<exists>l. lhs_search u (rev xs) = Inr l"
proof (induction xs arbitrary: e u rule: rev_induct)
  case Nil
  then show ?case by simp
next
  case (snoc c xs)
  from snoc.prems(1) obtain e0
    where e0: "nesting 0 xs = Some e0" and st: "nesting e0 [c] = Some e"
    by (auto simp: nesting_append split: option.splits)
  from snoc.prems(3) have all: "list_all hh_symbol xs" and c: "hh_symbol c" by auto
  note IH = snoc.IH [OF e0 _ all]
  show ?case
  proof (cases u)
    case 0
    with st c IH [of 0] IH [of 1] show ?thesis
      by (auto simp: hh_symbol_def split: if_splits nat.splits)
  next
    case (Suc u')
    with st c snoc.prems(2) IH [of u'] IH [of "Suc (Suc u')"] IH [of u] show ?thesis
      by (auto simp: hh_symbol_def split: if_splits nat.splits)
  qed
qed

lemma rewrite_symbol_no_rules:
  assumes "hh_symbol c" and "getContextLHS lhs = Inr l" and "getContextRHS rhs = Inr r"
  shows "rewrite_symbol [] lhs c rhs = Inr [swap_turn c]"
  using assms by (auto simp: rewrite_symbol_def hh_symbol_def swap_turn_def)

lemma hh_generation_no_rules:
  "nesting 0 lhs = Some e \<Longrightarrow> nesting e cs = Some 0 \<Longrightarrow> list_all hh_symbol lhs
     \<Longrightarrow> list_all hh_symbol cs
     \<Longrightarrow> hh_generation [] lhs cs acc = Inr (acc @ map swap_turn cs)"
proof (induction cs arbitrary: lhs e acc)
  case Nil
  then show ?case by simp
next
  case (Cons c cs)
  from Cons.prems(2) obtain e'
    where st: "nesting e [c] = Some e'" and rest: "nesting e' cs = Some 0"
    by (auto split: if_splits nat.splits)
  from Cons.prems(4) have c: "hh_symbol c" and all: "list_all hh_symbol cs" by auto
  from lhs_search_succeeds [OF Cons.prems(1) _ Cons.prems(3), of 0]
  obtain l where l: "getContextLHS lhs = Inr l"
    by (auto simp: getContextLHS_def)
  from rhs_search_succeeds [of e' 0 cs] rest all
  obtain r where r: "getContextRHS cs = Inr r"
    by (auto simp: getContextRHS_def)
  have rw: "rewrite_symbol [] lhs c cs = Inr [swap_turn c]"
    by (rule rewrite_symbol_no_rules [OF c l r])
  have n: "nesting 0 (lhs @ [c]) = Some e'"
    using Cons.prems(1) st by (simp add: nesting_append)
  have "list_all hh_symbol (lhs @ [c])"
    using Cons.prems(3) c by simp
  from Cons.IH [OF n rest this all, of "acc @ [swap_turn c]"] rw show ?case by simp
qed

lemma nesting_swap_turn: "nesting d (map swap_turn cs) = nesting d cs"
  by (induction cs arbitrary: d) (auto simp: swap_turn_def split: nat.splits)

lemma hh_symbol_swap_turn: "list_all hh_symbol cs \<Longrightarrow> list_all hh_symbol (map swap_turn cs)"
  by (induction cs) (auto simp: swap_turn_def hh_symbol_def)

lemma swap_turn_twice: "map (swap_turn \<circ> swap_turn) cs = cs"
  by (induction cs) (auto simp: swap_turn_def)

lemma swap_turn_no_turns:
  "CHR ''+'' \<notin> set cs \<Longrightarrow> CHR ''-'' \<notin> set cs \<Longrightarrow> map swap_turn cs = cs"
  by (induction cs) (auto simp: swap_turn_def)

lemma hh_loop_no_rules:
  "balanced s \<Longrightarrow> list_all hh_symbol s
     \<Longrightarrow> hh_loop [] n s = Inr (if even n then s else map swap_turn s)"
proof (induction n arbitrary: s)
  case 0
  then show ?case by simp
next
  case (Suc n)
  from Suc.prems have g: "hh_generation [] [] s [] = Inr (map swap_turn s)"
    using hh_generation_no_rules [of "[]" 0 s "[]"] by (simp add: balanced_def)
  have "balanced (map swap_turn s)"
    using Suc.prems(1) by (simp add: balanced_def nesting_swap_turn)
  from Suc.IH [OF this hh_symbol_swap_turn [OF Suc.prems(2)]] g show ?case
    by (simp add: swap_turn_twice)
qed

text \<open>
  Claim C2, as stated. With the empty rule table, the axiom \<open>+\<close> and order 1 the engine
  returns \<open>-\<close>: the turn symbols are swapped in every generation, rules or no rules.
\<close>

theorem HogewegHesper_no_rules_swaps_turn:
  "HogewegHesper 1 ''+'' [] = Inr ''-''"
  by (simp add: HogewegHesper_def rules_specified_correctly_def rewrite_symbol_def)

text \<open>
  Claim C2, amended. With the empty rule table, for every order from 0 on and every
  non-empty axiom over the alphabet of the engine whose brackets are balanced, the
  derivation succeeds and returns the axiom at an even order, and the axiom with \<open>+\<close> and
  \<open>-\<close> exchanged at an odd order; so it returns the axiom at every order when the axiom
  has no turn symbol.
\<close>

theorem HogewegHesper_no_rules:
  assumes "0 \<le> order" and "axiom \<noteq> []" and "list_all hh_symbol axiom" and "balanced axiom"
  shows "HogewegHesper order axiom [] = Inr (if even order then axiom else map swap_turn axiom) \<and>
         (CHR ''+'' \<notin> set axiom \<and> CHR ''-'' \<notin> set axiom
            \<longrightarrow> HogewegHesper order axiom [] = Inr axiom)"
  using assms hh_loop_no_rules [OF assms(4,3), of "nat order"]
  by (simp add: HogewegHesper_def rules_specified_correctly_def even_nat_iff
                swap_turn_no_turns)

theorem HogewegHesper_no_rules_witness:
  "HogewegHesper 3 ''$F1[+F0]-F1'' [] = Inr ''$F1[-F0]+F1'' \<and>
   HogewegHesper 3 ''$F1[F0]F1'' [] = Inr ''$F1[F0]F1''"
  using HogewegHesper_no_rules [of 3 "''$F1[+F0]-F1''"]
        HogewegHesper_no_rules [of 3 "''$F1[F0]F1''"]
  by (simp add: hh_symbol_def balanced_def swap_turn_def)

lemma matches_rule_key_shape:
  "matches_rule_key k \<Longrightarrow>
     \<exists>l a r. k = [l, CHR '' '', CHR ''<'', CHR '' '', a, CHR '' '', CHR ''>'', CHR '' '', r] \<and>
             bit_symbol l \<and> bit_symbol a \<and> bit_symbol r"
  by (cases k rule: matches_rule_key.cases) auto

lemma rule_key_has_both_contexts:
  assumes "matches_rule_key (l @ '' < '' @ [c] @ '' > '' @ r)"
  shows "l \<noteq> [] \<and> r \<noteq> []"
proof -
  from matches_rule_key_shape [OF assms] obtain l' a r' where
    k: "l @ '' < '' @ [c] @ '' > '' @ r =
          [l', CHR '' '', CHR ''<'', CHR '' '', a, CHR '' '', CHR ''>'', CHR '' '', r']"
    and b: "bit_symbol l'" "bit_symbol r'" by blast
  have "l \<noteq> []"
  proof
    assume "l = []"
    with k have "l' = CHR '' ''" by simp
    with b show False by (simp add: bit_symbol_def)
  qed
  moreover have "r \<noteq> []"
  proof
    assume "r = []"
    with k have "last (l @ '' < '' @ [c] @ '' > '') =
        last [l', CHR '' '', CHR ''<'', CHR '' '', a, CHR '' '', CHR ''>'', CHR '' '', r']"
      by simp
    then have "r' = CHR '' ''" by simp
    with b show False by (simp add: bit_symbol_def)
  qed
  ultimately show ?thesis by blast
qed

lemma lhs_search_result:
  "lhs_search u cs = Inr l \<Longrightarrow> l = [] \<or> (\<exists>c\<in>set cs. bit_symbol c \<and> l = [c])"
  by (induction u cs rule: lhs_search.induct) (auto simp: bit_symbol_def split: if_splits)

lemma rhs_search_result:
  "rhs_search u cs = Inr r \<Longrightarrow> r = [] \<or> (\<exists>c\<in>set cs. bit_symbol c \<and> r = [c])"
  by (induction u cs rule: rhs_search.induct) (auto simp: bit_symbol_def split: if_splits)

lemma rhs_search_top_of_branch:
  "list_all (\<lambda>c. c \<in> set ''F+-$'') pre \<Longrightarrow> rhs_search 0 (pre @ CHR '']'' # rest) = Inr []"
  by (induction pre) auto

lemma no_rule_for_empty_context:
  assumes "rules_specified_correctly rules" and "l = [] \<or> r = []"
  shows "map_of rules (l @ '' < '' @ [symbol] @ '' > '' @ r) = None"
proof (cases "map_of rules (l @ '' < '' @ [symbol] @ '' > '' @ r)")
  case None
  then show ?thesis .
next
  case (Some v)
  then have "(l @ '' < '' @ [symbol] @ '' > '' @ r, v) \<in> set rules"
    by (rule map_of_SomeD)
  with assms(1) have "matches_rule_key (l @ '' < '' @ [symbol] @ '' > '' @ r)"
    by (auto simp: rules_specified_correctly_def list_all_iff)
  from rule_key_has_both_contexts [OF this] assms(2) show ?thesis by blast
qed

text \<open>
  Claim C10. Let the rule table pass the check of \<open>HogewegHesper\<close>, let the symbol at
  \<open>pos\<close> be \<open>0\<close> or \<open>1\<close>, and let both searches succeed. A search over a text without
  \<open>0\<close> and \<open>1\<close> yields the empty context, and so does the search to the right that
  meets, behind symbols \<open>F + - $\<close> only, the \<open>]\<close> that ends the branch. When the left or
  the right context is empty, the symbol is copied: the key built from an empty context
  starts or ends with a blank, and no key of the table does.
\<close>

theorem empty_context_copies_symbol:
  assumes "rules_specified_correctly rules"
    and "symbol = CHR ''0'' \<or> symbol = CHR ''1''"
    and "getContextLHS lhs = Inr l" and "getContextRHS rhs = Inr r"
  shows "(l = [] \<or> r = [] \<longrightarrow> rewrite_symbol rules lhs symbol rhs = Inr [symbol]) \<and>
         (list_all (\<lambda>c. \<not> bit_symbol c) lhs \<longrightarrow> l = []) \<and>
         (list_all (\<lambda>c. \<not> bit_symbol c) rhs \<longrightarrow> r = []) \<and>
         (\<forall>pre rest. rhs = pre @ CHR '']'' # rest \<and> list_all (\<lambda>c. c \<in> set ''F+-$'') pre
            \<longrightarrow> r = [])"
proof (intro conjI)
  show "l = [] \<or> r = [] \<longrightarrow> rewrite_symbol rules lhs symbol rhs = Inr [symbol]"
  proof
    assume "l = [] \<or> r = []"
    then have "map_of rules (l @ '' < '' @ [symbol] @ '' > '' @ r) = None"
      by (rule no_rule_for_empty_context [OF assms(1)])
    with assms(2,3,4) show "rewrite_symbol rules lhs symbol rhs = Inr [symbol]"
      by (auto simp: rewrite_symbol_def)
  qed
  show "list_all (\<lambda>c. \<not> bit_symbol c) lhs \<longrightarrow> l = []"
    using lhs_search_result [of 0 "rev lhs" l] assms(3)
    by (auto simp: getContextLHS_def list_all_iff)
  show "list_all (\<lambda>c. \<not> bit_symbol c) rhs \<longrightarrow> r = []"
    using rhs_search_result [of 0 rhs r] assms(4)
    by (auto simp: getContextRHS_def list_all_iff)
  show "\<forall>pre rest. rhs = pre @ CHR '']'' # rest \<and> list_all (\<lambda>c. c \<in> set ''F+-$'') pre
      \<longrightarrow> r = []"
    using rhs_search_top_of_branch assms(4)
    by (auto simp: getContextRHS_def)
qed

theorem empty_context_copies_symbol_witness:
  "rewrite_symbol [(''0 < 1 > 1'', ''0''), (''1 < 1 > 1'', ''0'')] ''$F'' (CHR ''1'') ''F1F1''
     = Inr ''1'' \<and>
   getContextLHS ''$F'' = Inr [] \<and> getContextRHS ''F1F1'' = Inr ''1''"
proof -
  have table: "rules_specified_correctly [(''0 < 1 > 1'', ''0''), (''1 < 1 > 1'', ''0'')]"
    by (simp add: rules_specified_correctly_def bit_symbol_def)
  have left: "getContextLHS ''$F'' = Inr []"
    by (simp add: getContextLHS_def)
  have right: "getContextRHS ''F1F1'' = Inr ''1''"
    by (simp add: getContextRHS_def)
  have "rewrite_symbol [(''0 < 1 > 1'', ''0''), (''1 < 1 > 1'', ''0'')] ''$F'' (CHR ''1'')
          ''F1F1'' = Inr ''1''"
    using empty_context_copies_symbol [OF table _ left right, of "CHR ''1''"] by blast
  with left right show ?thesis by blast
qed

section \<open>Properties of the preprocessing\<close>




section \<open>Properties of the compilers\<close>

lemma math_Mod_0 [simp]: "math_Mod 0 360 = 0"
  by (simp add: math_Mod_def)

lemma math_Mod_90 [simp]: "math_Mod 90 360 = 90"
  by (simp add: math_Mod_def)

lemma math_Mod_180 [simp]: "math_Mod 180 360 = 180"
  by (simp add: math_Mod_def)

lemma math_Mod_270 [simp]: "math_Mod 270 360 = 270"
  by (simp add: math_Mod_def)

lemmas eval_lib = sprintf_f_def round_half_even_def decimal.simps digit_def Let_def

text \<open>
  Claim C7. The gnuplot compiler, started at the origin with the bounding box at zero on
  the string \<open>F+F+F+F\<close> with the angle 90, draws the four segments from (0,0) to (1,0),
  (1,1), (0,1) and back to (0,0); the turtle ends where it started, and the bounding box is
  \<open>xMin = 0\<close>, \<open>xMax = 1\<close>, \<open>yMin = 0\<close>, \<open>yMax = 1\<close>. All the numbers of this
  run are integers between 0 and 270, on which \<open>float64\<close> is exact.
\<close>

theorem unit_square:
  "logo2Gnuplot_pass L lineColor zero_box (h(p := ''F+F+F+F'')) p 0 90 =
     Inr \<lparr>pos = 7, turtle = \<lparr>HEADING = 270, X = 0, Y = 0\<rparr>, stack = [],
          heap = h(p := ''F+F+F+F''),
          box = \<lparr>xMin = 0, xMax = 1, yMin = 0, yMax = 1\<rparr>,
          polygon = [],
          plotCmds =
            [''set arrow as 1 from '' @ Sprintf_f L 0 @ '','' @ Sprintf_f L 0 @
               '' to '' @ Sprintf_f L 1 @ '','' @ Sprintf_f L 0,
             ''set arrow as 1 from '' @ Sprintf_f L 1 @ '','' @ Sprintf_f L 0 @
               '' to '' @ Sprintf_f L 1 @ '','' @ Sprintf_f L 1,
             ''set arrow as 1 from '' @ Sprintf_f L 1 @ '','' @ Sprintf_f L 1 @
               '' to '' @ Sprintf_f L 0 @ '','' @ Sprintf_f L 1,
             ''set arrow as 1 from '' @ Sprintf_f L 0 @ '','' @ Sprintf_f L 1 @
               '' to '' @ Sprintf_f L 0 @ '','' @ Sprintf_f L 0]\<rparr> \<and>
   map_sum id (fst \<circ> snd) (logo2Gnuplot L lineColor zero_box (h(p := ''F+F+F+F'')) p 0 90) =
     Inr \<lparr>xMin = 0, xMax = 1, yMin = 0, yMax = 1\<rparr>"
  by (simp add: logo2Gnuplot_def logo2Gnuplot_pass_def zero_box_def gnuplot_loop.simps
        updateProgressBar_panics_def gnuplot_step_def go_string_of_byte_def forward_def
        convert2Gnuplot_def Let_def)

text \<open>
  Claim C9. For the string \<open>FFF\<close>, from any origin, the HP-GL/2 compiler emits one
  \<open>PU\<close> to the origin and one \<open>PD\<close> followed by three pairs of coordinates joined by
  commas. In general the converter answers an \<open>F\<close> with \<open>PD\<close> as the current pen
  command, and an \<open>F\<close> that finds \<open>PD\<close> current with a comma and a pair only.
\<close>

theorem three_moves_one_PD:
  "logo2Hpgl L b (h(p := ''FFF'')) p x0 angle =
     Inr (''PU'' @ Sprintf_f L x0 @ '','' @ Sprintf_f L 0 @ '';'' @ nl @
          ''PD'' @ Sprintf_f L (x0 + 1) @ '','' @ Sprintf_f L 0 @
            '','' @ Sprintf_f L (x0 + 2) @ '','' @ Sprintf_f L 0 @
            '','' @ Sprintf_f L (x0 + 3) @ '','' @ Sprintf_f L 0 @ '';'',
          b\<lparr>xMax := max (xMax b) (x0 + 3)\<rparr>, h(p := ''FFF'')) \<and>
   snd (convert2Hpgl L pen ''F'' x y) = ''PD'' \<and>
   convert2Hpgl L ''PD'' ''F'' x' y' = ('','' @ Sprintf_f L x' @ '','' @ Sprintf_f L y', ''PD'')"
  by (simp add: logo2Hpgl_def logo2Hpgl_pass_def hpgl_loop.simps
        updateProgressBar_panics_def hpgl_step_def go_string_of_byte_def forward_def
        convert2Hpgl_def Let_def add.commute)

theorem three_moves_one_PD_text:
  "logo2Hpgl reference_lib zero_box ((\<lambda>l. [])(TurtleCmds := ''FFF'')) TurtleCmds 0 90 =
     Inr (''PU0.000000,0.000000;'' @ nl @
          ''PD1.000000,0.000000,2.000000,0.000000,3.000000,0.000000;'',
          \<lparr>xMin = 0, xMax = 3, yMin = 0, yMax = 0\<rparr>, (\<lambda>l. [])(TurtleCmds := ''FFF''))"
  using three_moves_one_PD [of reference_lib zero_box "\<lambda>l. []" TurtleCmds 0 90]
  by (simp add: reference_lib_def zero_box_def eval_lib)

lemmas eval_gnuplot = logo2Gnuplot_def logo2Gnuplot_pass_def gnuplot_loop.simps
  updateProgressBar_panics_def gnuplot_step_def go_string_of_byte_def forward_def
  convert2Gnuplot_def Let_def zero_box_def

lemmas eval_hpgl = logo2Hpgl_def logo2Hpgl_pass_def hpgl_loop.simps
  updateProgressBar_panics_def hpgl_step_def go_string_of_byte_def forward_def
  convert2Hpgl_def Let_def zero_box_def

lemmas eval_dry = next_offset_def calcXoffset_def calcXoffset_walk_def
  dry_loop.simps dry_step_def dry_forward_def xNudge_def

text \<open>
  Claim C6. In the loop of the gnuplot compiler, at a position where the progress bar does
  not fail, \<open>[\<close> appends the turtle to the stack and leaves it as it is; \<open>]\<close> with a
  non-empty stack makes the turtle, heading and position, the state appended last and
  removes that state from the stack; \<open>]\<close> with an empty stack ends the compilation in the
  panic of \<open>pop\<close>, the index \<open>-1\<close>, which is what the specification calls a stack
  underflow. For \<open>F[+F]F\<close>, at any origin and with any angle, the segment after \<open>]\<close>
  starts where the turtle stood at \<open>[\<close>, one unit from the origin, and runs with the
  heading of that moment; \<open>F]F\<close> fails.
\<close>

theorem branch_close_restores:
  "(pos s < length (heap s p) \<and> \<not> updateProgressBar_panics L (pos s) (length (heap s p) - 1) \<and>
    heap s p ! pos s = CHR ''['' \<longrightarrow>
      gnuplot_loop L lineColor angle p s =
      gnuplot_loop L lineColor angle p (s\<lparr>stack := stack s @ [turtle s], pos := pos s + 1\<rparr>)) \<and>
   (pos s < length (heap s p) \<and> \<not> updateProgressBar_panics L (pos s) (length (heap s p) - 1) \<and>
    heap s p ! pos s = CHR '']'' \<and> stack s = saved @ [t] \<longrightarrow>
      gnuplot_loop L lineColor angle p s =
      gnuplot_loop L lineColor angle p (s\<lparr>turtle := t, stack := saved, pos := pos s + 1\<rparr>)) \<and>
   (pos s < length (heap s p) \<and> heap s p ! pos s = CHR '']'' \<and> stack s = [] \<longrightarrow>
      (\<exists>e. gnuplot_loop L lineColor angle p s = Inl e) \<and>
      (\<not> updateProgressBar_panics L (pos s) (length (heap s p) - 1) \<longrightarrow>
         gnuplot_loop L lineColor angle p s = Inl Panic_index_out_of_range)) \<and>
   map_sum id (\<lambda>s. (turtle s, stack s, last (plotCmds s)))
     (logo2Gnuplot_pass L lineColor b (h(p := ''F[+F]F'')) p xStart angle) =
     Inr (\<lparr>HEADING = 0, X = xStart + 2, Y = 0\<rparr>, [],
          ''set arrow as 1 from '' @ Sprintf_f L (xStart + 1) @ '','' @ Sprintf_f L 0 @
            '' to '' @ Sprintf_f L (xStart + 2) @ '','' @ Sprintf_f L 0) \<and>
   logo2Gnuplot L lineColor b (h(p := ''F]F'')) p xStart angle = Inl Panic_index_out_of_range"
proof (intro conjI)
  show "pos s < length (heap s p) \<and>
      \<not> updateProgressBar_panics L (pos s) (length (heap s p) - 1) \<and>
      heap s p ! pos s = CHR ''['' \<longrightarrow>
      gnuplot_loop L lineColor angle p s =
      gnuplot_loop L lineColor angle p (s\<lparr>stack := stack s @ [turtle s], pos := pos s + 1\<rparr>)"
    by (subst gnuplot_loop.simps)
       (simp add: gnuplot_step_def go_string_of_byte_def push_def)
  show "pos s < length (heap s p) \<and>
      \<not> updateProgressBar_panics L (pos s) (length (heap s p) - 1) \<and>
      heap s p ! pos s = CHR '']'' \<and> stack s = saved @ [t] \<longrightarrow>
      gnuplot_loop L lineColor angle p s =
      gnuplot_loop L lineColor angle p (s\<lparr>turtle := t, stack := saved, pos := pos s + 1\<rparr>)"
    by (subst gnuplot_loop.simps)
       (simp add: gnuplot_step_def go_string_of_byte_def pop_def)
  show "pos s < length (heap s p) \<and> heap s p ! pos s = CHR '']'' \<and> stack s = [] \<longrightarrow>
      (\<exists>e. gnuplot_loop L lineColor angle p s = Inl e) \<and>
      (\<not> updateProgressBar_panics L (pos s) (length (heap s p) - 1) \<longrightarrow>
         gnuplot_loop L lineColor angle p s = Inl Panic_index_out_of_range)"
    by (subst (1 2) gnuplot_loop.simps)
       (simp add: gnuplot_step_def go_string_of_byte_def pop_def)
  show "map_sum id (\<lambda>s. (turtle s, stack s, last (plotCmds s)))
     (logo2Gnuplot_pass L lineColor b (h(p := ''F[+F]F'')) p xStart angle) =
     Inr (\<lparr>HEADING = 0, X = xStart + 2, Y = 0\<rparr>, [],
          ''set arrow as 1 from '' @ Sprintf_f L (xStart + 1) @ '','' @ Sprintf_f L 0 @
            '' to '' @ Sprintf_f L (xStart + 2) @ '','' @ Sprintf_f L 0)"
    by (simp add: eval_gnuplot push_def pop_def add.commute)
  show "logo2Gnuplot L lineColor b (h(p := ''F]F'')) p xStart angle = Inl Panic_index_out_of_range"
    by (simp add: eval_gnuplot push_def pop_def)
qed

theorem branch_close_restores_witness:
  "gnuplot_loop reference_lib ''red'' 90 TurtleCmds
     \<lparr>pos = 2, turtle = \<lparr>HEADING = 0, X = 2, Y = 0\<rparr>, stack = [],
      heap = (\<lambda>l. [])(TurtleCmds := ''FF[+F]F''), box = zero_box, polygon = [], plotCmds = []\<rparr> =
   gnuplot_loop reference_lib ''red'' 90 TurtleCmds
     \<lparr>pos = 3, turtle = \<lparr>HEADING = 0, X = 2, Y = 0\<rparr>, stack = [\<lparr>HEADING = 0, X = 2, Y = 0\<rparr>],
      heap = (\<lambda>l. [])(TurtleCmds := ''FF[+F]F''), box = zero_box, polygon = [], plotCmds = []\<rparr> \<and>
   gnuplot_loop reference_lib ''red'' 90 TurtleCmds
     \<lparr>pos = 5, turtle = \<lparr>HEADING = 90, X = 2, Y = 1\<rparr>, stack = [\<lparr>HEADING = 0, X = 2, Y = 0\<rparr>],
      heap = (\<lambda>l. [])(TurtleCmds := ''FF[+F]F''), box = zero_box, polygon = [], plotCmds = []\<rparr> =
   gnuplot_loop reference_lib ''red'' 90 TurtleCmds
     \<lparr>pos = 6, turtle = \<lparr>HEADING = 0, X = 2, Y = 0\<rparr>, stack = [],
      heap = (\<lambda>l. [])(TurtleCmds := ''FF[+F]F''), box = zero_box, polygon = [], plotCmds = []\<rparr> \<and>
   gnuplot_loop reference_lib ''red'' 90 TurtleCmds
     \<lparr>pos = 2, turtle = \<lparr>HEADING = 0, X = 2, Y = 0\<rparr>, stack = [],
      heap = (\<lambda>l. [])(TurtleCmds := ''FF]F''), box = zero_box, polygon = [], plotCmds = []\<rparr> =
   Inl Panic_index_out_of_range"
  using branch_close_restores
          [where s = "\<lparr>pos = 2, turtle = \<lparr>HEADING = 0, X = 2, Y = 0\<rparr>, stack = [],
                heap = (\<lambda>l. [])(TurtleCmds := ''FF[+F]F''), box = zero_box, polygon = [],
                plotCmds = []\<rparr>"
             and p = TurtleCmds and L = reference_lib and lineColor = "''red''" and angle = 90
             and saved = "[]" and b = zero_box and h = "\<lambda>l. []" and xStart = 0]
        branch_close_restores
          [where s = "\<lparr>pos = 5, turtle = \<lparr>HEADING = 90, X = 2, Y = 1\<rparr>,
                stack = [\<lparr>HEADING = 0, X = 2, Y = 0\<rparr>],
                heap = (\<lambda>l. [])(TurtleCmds := ''FF[+F]F''), box = zero_box, polygon = [],
                plotCmds = []\<rparr>"
             and p = TurtleCmds and L = reference_lib and lineColor = "''red''" and angle = 90
             and saved = "[]" and t = "\<lparr>HEADING = 0, X = 2, Y = 0\<rparr>"
             and b = zero_box and h = "\<lambda>l. []" and xStart = 0]
        branch_close_restores
          [where s = "\<lparr>pos = 2, turtle = \<lparr>HEADING = 0, X = 2, Y = 0\<rparr>, stack = [],
                heap = (\<lambda>l. [])(TurtleCmds := ''FF]F''), box = zero_box, polygon = [],
                plotCmds = []\<rparr>"
             and p = TurtleCmds and L = reference_lib and lineColor = "''red''" and angle = 90
             and saved = "[]" and b = zero_box and h = "\<lambda>l. []" and xStart = 0]
  by (simp add: updateProgressBar_panics_def)

lemma Sprintf_f_reference_lib: "Sprintf_f reference_lib = sprintf_f"
  by (simp add: reference_lib_def)

lemma sprintf_f_small:
  "sprintf_f 0 = ''0.000000''" "sprintf_f 1 = ''1.000000''" "sprintf_f 2 = ''2.000000''"
  "sprintf_f 4 = ''4.000000''" "sprintf_f 5 = ''5.000000''" "sprintf_f 6 = ''6.000000''"
  by (simp_all add: eval_lib)

text \<open>
  Claim C8, at three subplots: \<open>MultiPlot\<close> on the strings \<open>FF\<close>, \<open>|FF\<close> and \<open>FF\<close>,
  each with the angle 90 and without a label. The first subplot is drawn from 0 to 2. The
  walk of the coroutine over \<open>|FF\<close> reaches 2 to the left of its start, so the second
  subplot starts at \<open>2 + 2 + xNudge = 6\<close>, and it is drawn from 6 to 4. The \<open>xMax\<close> of
  the compiler starts at 0 when the closure is made, not at \<open>xOrigin\<close>, and a move with
  the heading 180 lowers \<open>xMin\<close> only: after the second subplot \<open>xMax\<close> is 2 as
  before, while the bounding box of that subplot, seeded at its origin, reaches from 4 to 6.
  The walk over the third string never comes to the left of its start and the offset is
  \<open>xNudge\<close>; the third subplot starts at \<open>2 + xNudge = 4\<close>, which is not the \<open>xMax\<close>
  of the second subplot plus \<open>xNudge\<close> and lies to the left of that \<open>xMax\<close>, and it is
  drawn from 4 to 6, over the second subplot.
\<close>

theorem third_subplot_drawn_over_second:
  "map_sum id fst
     (MultiPlot reference_lib no_names three_lines [Elem 0, Elem 1, Elem 2] [90, 90, 90]
        ''set terminal png'' ''set output'' [] [[], [], []] ''#ff0000'') =
   Inr [''set terminal png'', ''set output'', ''unset border'', ''unset tics'',
        ''set bmargin 1'', ''set tmargin 1'', ''set rmargin 1'', ''set lmargin 1'',
        ''set autoscale fix'',
        ''set style fill solid 1.0 border rgb '' @ dq @ ''#ff0000'' @ dq,
        ''set style arrow 1 nohead lc rgb '' @ dq @ ''#ff0000'' @ dq,
        ''set arrow as 1 from 0.000000,0.000000 to 1.000000,0.000000'',
        ''set arrow as 1 from 1.000000,0.000000 to 2.000000,0.000000'',
        ''set arrow as 1 from 6.000000,0.000000 to 5.000000,0.000000'',
        ''set arrow as 1 from 5.000000,0.000000 to 4.000000,0.000000'',
        ''set arrow as 1 from 4.000000,0.000000 to 5.000000,0.000000'',
        ''set arrow as 1 from 5.000000,0.000000 to 6.000000,0.000000'',
        ''set xrange [0.000000:6.000000]'', ''set yrange [0.000000:0.000000]'',
        ''set parametric'',
        ''plot 0,0 notitle lc rgb '' @ dq @ ''#ff0000'' @ dq @ '' lw 0'', ''quit''] \<and>
   MultiPlot_body reference_lib ''#ff0000'' [Elem 0, Elem 1, Elem 2] [90, 90, 90] [[], [], []] 0
     \<lparr>layout_heap = three_lines, layout_box = zero_box,
      layout_coroutine = (\<lparr>HEADING = 0, X = 0, Y = 0\<rparr>, []), xOrigin = 0, layout_cmds = []\<rparr> =
   Inr \<lparr>layout_heap = three_lines(Range_v := ''FF''),
        layout_box = \<lparr>xMin = 0, xMax = 2, yMin = 0, yMax = 0\<rparr>,
        layout_coroutine = (\<lparr>HEADING = 180, X = - 2, Y = 0\<rparr>, []), xOrigin = 6,
        layout_cmds =
          [''set arrow as 1 from 0.000000,0.000000 to 1.000000,0.000000'',
           ''set arrow as 1 from 1.000000,0.000000 to 2.000000,0.000000'']\<rparr> \<and>
   MultiPlot_body reference_lib ''#ff0000'' [Elem 0, Elem 1, Elem 2] [90, 90, 90] [[], [], []] 1
     \<lparr>layout_heap = three_lines(Range_v := ''FF''),
      layout_box = \<lparr>xMin = 0, xMax = 2, yMin = 0, yMax = 0\<rparr>,
      layout_coroutine = (\<lparr>HEADING = 180, X = - 2, Y = 0\<rparr>, []), xOrigin = 6,
      layout_cmds = []\<rparr> =
   Inr \<lparr>layout_heap = three_lines(Range_v := ''|FF''),
        layout_box = \<lparr>xMin = 0, xMax = 2, yMin = 0, yMax = 0\<rparr>,
        layout_coroutine = (\<lparr>HEADING = 0, X = 2, Y = 0\<rparr>, []), xOrigin = 4,
        layout_cmds =
          [''set arrow as 1 from 6.000000,0.000000 to 5.000000,0.000000'',
           ''set arrow as 1 from 5.000000,0.000000 to 4.000000,0.000000'']\<rparr> \<and>
   spec_subplot_box reference_lib ''#ff0000'' ''FF'' 0 90 =
     Inr \<lparr>xMin = 0, xMax = 2, yMin = 0, yMax = 0\<rparr> \<and>
   spec_subplot_box reference_lib ''#ff0000'' ''|FF'' 6 90 =
     Inr \<lparr>xMin = 4, xMax = 6, yMin = 0, yMax = 0\<rparr> \<and>
   map_sum id xMin'
     (calcXoffset_walk reference_lib (\<lparr>HEADING = 0, X = 0, Y = 0\<rparr>, []) ''|FF'' 90) =
     Inr (- 2) \<and>
   map_sum id xMin'
     (calcXoffset_walk reference_lib (\<lparr>HEADING = 180, X = - 2, Y = 0\<rparr>, []) ''FF'' 90) =
     Inr 0 \<and>
   map_sum id fst
     (calcXoffset reference_lib (\<lparr>HEADING = 180, X = - 2, Y = 0\<rparr>, []) ''FF'' 90) =
     Inr xNudge"
proof (intro conjI)
  show "map_sum id fst
     (MultiPlot reference_lib no_names three_lines [Elem 0, Elem 1, Elem 2] [90, 90, 90]
        ''set terminal png'' ''set output'' [] [[], [], []] ''#ff0000'') =
   Inr [''set terminal png'', ''set output'', ''unset border'', ''unset tics'',
        ''set bmargin 1'', ''set tmargin 1'', ''set rmargin 1'', ''set lmargin 1'',
        ''set autoscale fix'',
        ''set style fill solid 1.0 border rgb '' @ dq @ ''#ff0000'' @ dq,
        ''set style arrow 1 nohead lc rgb '' @ dq @ ''#ff0000'' @ dq,
        ''set arrow as 1 from 0.000000,0.000000 to 1.000000,0.000000'',
        ''set arrow as 1 from 1.000000,0.000000 to 2.000000,0.000000'',
        ''set arrow as 1 from 6.000000,0.000000 to 5.000000,0.000000'',
        ''set arrow as 1 from 5.000000,0.000000 to 4.000000,0.000000'',
        ''set arrow as 1 from 4.000000,0.000000 to 5.000000,0.000000'',
        ''set arrow as 1 from 5.000000,0.000000 to 6.000000,0.000000'',
        ''set xrange [0.000000:6.000000]'', ''set yrange [0.000000:0.000000]'',
        ''set parametric'',
        ''plot 0,0 notitle lc rgb '' @ dq @ ''#ff0000'' @ dq @ '' lw 0'', ''quit'']"
    by (simp add: MultiPlot_def validFgColor_def no_names_def MultiPlot_range.simps
          MultiPlot_body_def eval_dry eval_gnuplot three_lines_def Sprintf_f_reference_lib
          sprintf_f_small)
qed (simp_all add: MultiPlot_body_def spec_subplot_box_def eval_dry eval_gnuplot
       three_lines_def Sprintf_f_reference_lib sprintf_f_small)

lemma delete_all_single: "delete_all [c] cs = filter (\<lambda>d. d \<noteq> c) cs"
  by (induction cs) auto

lemma go_string_of_byte_ascii: "(of_char c :: nat) < 128 \<Longrightarrow> go_string_of_byte c = [c]"
  by (simp add: go_string_of_byte_def)

lemma filter_take_drop:
  assumes "list_all P (take n xs)"
  shows "take n (filter P xs) = take n xs \<and> drop n (filter P xs) = filter P (drop n xs)"
proof -
  have "filter P xs = filter P (take n xs @ drop n xs)" by simp
  also have "\<dots> = take n xs @ filter P (drop n xs)"
    using assms by (simp add: list_all_iff del: append_take_drop_id)
  finally have e: "filter P xs = take n xs @ filter P (drop n xs)" .
  show ?thesis
  proof (cases "n \<le> length xs")
    case True
    then have "length (take n xs) = n" by simp
    with e show ?thesis by (metis append_eq_conv_conj)
  next
    case False
    then have "take n xs = xs" "drop n xs = []" by simp_all
    with assms show ?thesis by (simp add: list_all_iff)
  qed
qed

lemma advance_keeps:
  assumes "advance cs n cs' n'" and "n < length cs" and "plain_symbols cs"
    and "list_all drawing_constant (take n cs)"
  shows "plain_symbols cs' \<and> list_all drawing_constant (take n' cs') \<and>
         take n' cs' @ filter drawing_constant (drop n' cs') =
         take n cs @ filter drawing_constant (drop n cs)"
proof (cases "drawing_constant (cs ! n)")
  case True
  with assms(1) have e: "cs' = cs" "n' = Suc n" by (simp_all add: advance_def)
  have t: "take (Suc n) cs = take n cs @ [cs ! n]"
    using assms(2) by (simp add: take_Suc_conv_app_nth)
  have d: "drop n cs = cs ! n # drop (Suc n) cs"
    using assms(2) by (simp add: Cons_nth_drop_Suc)
  show ?thesis using assms(3,4) True unfolding e t d by simp
next
  case False
  let ?P = "\<lambda>d. d \<noteq> cs ! n"
  from False assms(1) have e: "cs' = filter ?P cs" "n' = n" by (simp_all add: advance_def)
  have "list_all ?P (take n cs)"
    using assms(4) False by (auto simp: list_all_iff)
  from filter_take_drop [OF this]
  have t: "take n (filter ?P cs) = take n cs" and d: "drop n (filter ?P cs) = filter ?P (drop n cs)"
    by simp_all
  have f: "filter (\<lambda>x. x \<noteq> cs ! n \<and> drawing_constant x) (drop n cs) =
      filter drawing_constant (drop n cs)"
    using False by (auto intro: filter_cong)
  have "plain_symbols (filter ?P cs)"
    using assms(3) by (auto simp: plain_symbols_def list_all_iff)
  then show ?thesis using assms(4) by (simp add: e t d f)
qed

lemma gnuplot_step_advance:
  assumes "gnuplot_step L lc a p s = Inr s'" and "pos s < length (heap s p)" and "plain_symbols (heap s p)"
  shows "advance (heap s p) (pos s) (heap s' p) (pos s')"
proof -
  let ?c = "heap s p ! pos s"
  from assms(2,3) have asc: "(of_char ?c :: nat) < 128" and np: "?c \<noteq> CHR ''(''"
    by (auto simp: plain_symbols_def list_all_length in_set_conv_nth)
  have sym: "go_string_of_byte ?c = [?c]" using asc by (rule go_string_of_byte_ascii)
  show ?thesis
    using assms(1) np unfolding gnuplot_step_def Let_def sym advance_def drawing_constant_def
    by (auto split: if_splits prod.splits sum.splits simp: delete_all_single)
qed

lemma gnuplot_step_frame:
  "gnuplot_step L lc a p s = Inr s' \<Longrightarrow> l \<noteq> p \<Longrightarrow> heap s' l = heap s l"
  unfolding gnuplot_step_def Let_def
  by (auto split: if_splits prod.splits sum.splits)

lemma gnuplot_loop_frame:
  "gnuplot_loop L lc a p s = Inr s' \<Longrightarrow> l \<noteq> p \<Longrightarrow> heap s' l = heap s l"
proof (induction L lc a p s rule: gnuplot_loop.induct)
  case (1 L lc a p s)
  show ?case
  proof (cases "pos s < length (heap s p)")
    case False
    with "1.prems"(1) show ?thesis by (simp add: gnuplot_loop.simps)
  next
    case True
    with "1.prems"(1) obtain s1 where st: "gnuplot_step L lc a p s = Inr s1"
      and lp: "gnuplot_loop L lc a p s1 = Inr s'"
      and np: "\<not> updateProgressBar_panics L (pos s) (length (heap s p) - 1)"
      by (subst (asm) gnuplot_loop.simps) (auto split: sum.splits if_splits)
    from "1.IH" [OF True np st lp "1.prems"(2)] gnuplot_step_frame [OF st "1.prems"(2)]
    show ?thesis by simp
  qed
qed

lemma gnuplot_loop_strips:
  "gnuplot_loop L lc a p s = Inr s' \<Longrightarrow> plain_symbols (heap s p) \<Longrightarrow>
   list_all drawing_constant (take (pos s) (heap s p)) \<Longrightarrow>
   heap s' p = take (pos s) (heap s p) @ filter drawing_constant (drop (pos s) (heap s p))"
proof (induction L lc a p s rule: gnuplot_loop.induct)
  case (1 L lc a p s)
  show ?case
  proof (cases "pos s < length (heap s p)")
    case False
    with "1.prems"(1) show ?thesis by (simp add: gnuplot_loop.simps)
  next
    case True
    with "1.prems"(1) obtain s1 where st: "gnuplot_step L lc a p s = Inr s1"
      and lp: "gnuplot_loop L lc a p s1 = Inr s'"
      and np: "\<not> updateProgressBar_panics L (pos s) (length (heap s p) - 1)"
      by (subst (asm) gnuplot_loop.simps) (auto split: sum.splits if_splits)
    from advance_keeps [OF gnuplot_step_advance [OF st True "1.prems"(2)] True "1.prems"(2,3)]
    have k: "plain_symbols (heap s1 p)" "list_all drawing_constant (take (pos s1) (heap s1 p))"
      "take (pos s1) (heap s1 p) @ filter drawing_constant (drop (pos s1) (heap s1 p)) =
       take (pos s) (heap s p) @ filter drawing_constant (drop (pos s) (heap s p))"
      by simp_all
    from "1.IH" [OF True np st lp k(1,2)] k(3) show ?thesis by simp
  qed
qed

lemma set_remove_pointless_turns: "set (remove_pointless_turns cs) \<subseteq> set cs"
  by (induction cs rule: remove_pointless_turns.induct) auto

lemma plain_symbols_remove: "plain_symbols cs \<Longrightarrow> plain_symbols (remove_pointless_turns cs)"
  using set_remove_pointless_turns [of cs] by (auto simp: plain_symbols_def list_all_iff)

lemma logo2Gnuplot_store:
  assumes "logo2Gnuplot L lc b h p x0 a = Inr (out, b', h')"
  shows "(\<forall>l. l \<noteq> p \<longrightarrow> h' l = h l) \<and> (plain_symbols (h p) \<longrightarrow> h' p = stripped (h p))"
proof -
  let ?s0 = "\<lparr>pos = 0, turtle = \<lparr>HEADING = 0, X = x0, Y = 0\<rparr>, stack = [],
        heap = h(p := remove_pointless_turns (h p)), box = b,
        polygon = [], plotCmds = []\<rparr>"
  from assms obtain s where lp: "gnuplot_loop L lc a p ?s0 = Inr s" and h': "h' = heap s"
    by (auto simp: logo2Gnuplot_def logo2Gnuplot_pass_def split: sum.splits)
  have "\<forall>l. l \<noteq> p \<longrightarrow> h' l = h l"
    using gnuplot_loop_frame [OF lp] h' by simp
  moreover have "plain_symbols (h p) \<longrightarrow> h' p = stripped (h p)"
  proof
    assume "plain_symbols (h p)"
    then have "plain_symbols (heap ?s0 p)" by (simp add: plain_symbols_remove)
    from gnuplot_loop_strips [OF lp this] h' show "h' p = stripped (h p)"
      by (simp add: stripped_def)
  qed
  ultimately show ?thesis by blast
qed


lemma hpgl_step_advance:
  assumes "hpgl_step L a p s = Inr s'" and "pos s < length (heap s p)" and "plain_symbols (heap s p)"
  shows "advance (heap s p) (pos s) (heap s' p) (pos s')"
proof -
  let ?c = "heap s p ! pos s"
  from assms(2,3) have asc: "(of_char ?c :: nat) < 128" and np: "?c \<noteq> CHR ''(''"
    by (auto simp: plain_symbols_def list_all_length in_set_conv_nth)
  have sym: "go_string_of_byte ?c = [?c]" using asc by (rule go_string_of_byte_ascii)
  show ?thesis
    using assms(1) np unfolding hpgl_step_def Let_def sym advance_def drawing_constant_def
    by (auto split: if_splits prod.splits sum.splits simp: delete_all_single)
qed

lemma hpgl_step_frame:
  "hpgl_step L a p s = Inr s' \<Longrightarrow> l \<noteq> p \<Longrightarrow> heap s' l = heap s l"
  unfolding hpgl_step_def Let_def
  by (auto split: if_splits prod.splits sum.splits)

lemma hpgl_loop_frame:
  "hpgl_loop L a p s = Inr s' \<Longrightarrow> l \<noteq> p \<Longrightarrow> heap s' l = heap s l"
proof (induction L a p s rule: hpgl_loop.induct)
  case (1 L a p s)
  show ?case
  proof (cases "pos s < length (heap s p)")
    case False
    with "1.prems"(1) show ?thesis by (simp add: hpgl_loop.simps)
  next
    case True
    with "1.prems"(1) obtain s1 where st: "hpgl_step L a p s = Inr s1"
      and lp: "hpgl_loop L a p s1 = Inr s'"
      and np: "\<not> updateProgressBar_panics L (pos s) (length (heap s p) - 1)"
      by (subst (asm) hpgl_loop.simps) (auto split: sum.splits if_splits)
    from "1.IH" [OF True np st lp "1.prems"(2)] hpgl_step_frame [OF st "1.prems"(2)]
    show ?thesis by simp
  qed
qed

lemma hpgl_loop_strips:
  "hpgl_loop L a p s = Inr s' \<Longrightarrow> plain_symbols (heap s p) \<Longrightarrow>
   list_all drawing_constant (take (pos s) (heap s p)) \<Longrightarrow>
   heap s' p = take (pos s) (heap s p) @ filter drawing_constant (drop (pos s) (heap s p))"
proof (induction L a p s rule: hpgl_loop.induct)
  case (1 L a p s)
  show ?case
  proof (cases "pos s < length (heap s p)")
    case False
    with "1.prems"(1) show ?thesis by (simp add: hpgl_loop.simps)
  next
    case True
    with "1.prems"(1) obtain s1 where st: "hpgl_step L a p s = Inr s1"
      and lp: "hpgl_loop L a p s1 = Inr s'"
      and np: "\<not> updateProgressBar_panics L (pos s) (length (heap s p) - 1)"
      by (subst (asm) hpgl_loop.simps) (auto split: sum.splits if_splits)
    from advance_keeps [OF hpgl_step_advance [OF st True "1.prems"(2)] True "1.prems"(2,3)]
    have k: "plain_symbols (heap s1 p)" "list_all drawing_constant (take (pos s1) (heap s1 p))"
      "take (pos s1) (heap s1 p) @ filter drawing_constant (drop (pos s1) (heap s1 p)) =
       take (pos s) (heap s p) @ filter drawing_constant (drop (pos s) (heap s p))"
      by simp_all
    from "1.IH" [OF True np st lp k(1,2)] k(3) show ?thesis by simp
  qed
qed

lemma logo2Hpgl_store:
  assumes "logo2Hpgl L b h p x0 a = Inr (out, b', h')"
  shows "(\<forall>l. l \<noteq> p \<longrightarrow> h' l = h l) \<and> (plain_symbols (h p) \<longrightarrow> h' p = stripped (h p))"
proof -
  from assms obtain s0 s where lp: "hpgl_loop L a p s0 = Inr s" and h': "h' = heap s"
    and s0: "heap s0 = h(p := remove_pointless_turns (h p))" "pos s0 = 0"
    by (auto simp: logo2Hpgl_def logo2Hpgl_pass_def split: sum.splits prod.splits)
  have "\<forall>l. l \<noteq> p \<longrightarrow> h' l = h l"
    using hpgl_loop_frame [OF lp] h' s0 by simp
  moreover have "plain_symbols (h p) \<longrightarrow> h' p = stripped (h p)"
  proof
    assume "plain_symbols (h p)"
    then have "plain_symbols (heap s0 p)" by (simp add: plain_symbols_remove s0)
    from hpgl_loop_strips [OF lp this] h' s0 show "h' p = stripped (h p)"
      by (simp add: stripped_def)
  qed
  ultimately show ?thesis by blast
qed

lemma Plot_store:
  assumes "Plot L P h angle terminalCmd outputCmd plotTitle lineColor = Inr (out, h')"
  shows "(\<forall>l. l \<noteq> TurtleCmds \<longrightarrow> h' l = h l) \<and>
         (plain_symbols (h TurtleCmds) \<longrightarrow> h' TurtleCmds = stripped (h TurtleCmds))"
proof -
  from assms obtain drawCmds b where
    "logo2Gnuplot L lineColor zero_box h TurtleCmds 0 angle = Inr (drawCmds, b, h')"
    by (auto simp: Plot_def Let_def split: if_splits sum.splits prod.splits)
  then show ?thesis by (rule logo2Gnuplot_store)
qed

lemma HpglPlot_store:
  assumes "HpglPlot L h angle plotTitle penWidth hpglPath = Inr (out, h')"
  shows "(\<forall>l. l \<noteq> TurtleCmds \<longrightarrow> h' l = h l) \<and>
         (plain_symbols (h TurtleCmds) \<longrightarrow> h' TurtleCmds = stripped (h TurtleCmds))"
proof -
  from assms obtain drawCmds b where
    "logo2Hpgl L zero_box h TurtleCmds 0 angle = Inr (drawCmds, b, h')"
    by (auto simp: HpglPlot_def Let_def split: if_splits sum.splits prod.splits)
  then show ?thesis by (rule logo2Hpgl_store)
qed

lemma MultiPlot_body_frame:
  assumes "MultiPlot_body L lc turtleCmds turtleAngles labels k st = Inr st'" and "l \<noteq> Range_v"
  shows "layout_heap st' l = layout_heap st l"
proof -
  from assms(1) obtain drawCmds b where
    "logo2Gnuplot L lc (layout_box st)
       ((layout_heap st)(Range_v := layout_heap st (turtleCmds ! k))) Range_v (xOrigin st)
       (turtleAngles ! k) = Inr (drawCmds, b, layout_heap st')"
    by (auto simp: MultiPlot_body_def Let_def split: sum.splits prod.splits)
  from logo2Gnuplot_store [OF this] assms(2) show ?thesis by simp
qed

lemma MultiPlot_range_frame:
  "MultiPlot_range L lc turtleCmds turtleAngles labels k st = Inr st' \<Longrightarrow> l \<noteq> Range_v
     \<Longrightarrow> layout_heap st' l = layout_heap st l"
proof (induction L lc turtleCmds turtleAngles labels k st rule: MultiPlot_range.induct)
  case (1 L lc turtleCmds turtleAngles labels k st)
  show ?case
  proof (cases "k < length turtleCmds")
    case False
    with "1.prems"(1) show ?thesis by (simp add: MultiPlot_range.simps)
  next
    case True
    with "1.prems"(1) obtain st1
      where b: "MultiPlot_body L lc turtleCmds turtleAngles labels k st = Inr st1"
        and r: "MultiPlot_range L lc turtleCmds turtleAngles labels (Suc k) st1 = Inr st'"
      by (subst (asm) MultiPlot_range.simps) (auto split: sum.splits)
    from "1.IH" [OF True b r "1.prems"(2)] MultiPlot_body_frame [OF b "1.prems"(2)]
    show ?thesis by simp
  qed
qed

lemma HpglMultiPlot_body_frame:
  assumes "HpglMultiPlot_body L turtleCmds turtleAngles labels k st = Inr st'" and "l \<noteq> Range_v"
  shows "layout_heap st' l = layout_heap st l"
proof -
  from assms(1) obtain drawCmds b where
    "logo2Hpgl L (layout_box st)
       ((layout_heap st)(Range_v := layout_heap st (turtleCmds ! k))) Range_v (xOrigin st)
       (turtleAngles ! k) = Inr (drawCmds, b, layout_heap st')"
    by (auto simp: HpglMultiPlot_body_def Let_def split: sum.splits prod.splits)
  from logo2Hpgl_store [OF this] assms(2) show ?thesis by simp
qed

lemma HpglMultiPlot_range_frame:
  "HpglMultiPlot_range L turtleCmds turtleAngles labels k st = Inr st' \<Longrightarrow> l \<noteq> Range_v
     \<Longrightarrow> layout_heap st' l = layout_heap st l"
proof (induction L turtleCmds turtleAngles labels k st rule: HpglMultiPlot_range.induct)
  case (1 L turtleCmds turtleAngles labels k st)
  show ?case
  proof (cases "k < length turtleCmds")
    case False
    with "1.prems"(1) show ?thesis by (simp add: HpglMultiPlot_range.simps)
  next
    case True
    with "1.prems"(1) obtain st1
      where b: "HpglMultiPlot_body L turtleCmds turtleAngles labels k st = Inr st1"
        and r: "HpglMultiPlot_range L turtleCmds turtleAngles labels (Suc k) st1 = Inr st'"
      by (subst (asm) HpglMultiPlot_range.simps) (auto split: sum.splits)
    from "1.IH" [OF True b r "1.prems"(2)] HpglMultiPlot_body_frame [OF b "1.prems"(2)]
    show ?thesis by simp
  qed
qed

lemma MultiPlot_store:
  assumes "MultiPlot L P h turtleCmds turtleAngles terminalCmd outputCmd plotTitle labels lineColor
             = Inr (out, h')"
    and "l \<noteq> Range_v"
  shows "h' l = h l"
proof -
  from assms(1) obtain st0 st where
    "MultiPlot_range L lineColor turtleCmds turtleAngles labels 0 st0 = Inr st"
    and "layout_heap st0 = h" and "h' = layout_heap st"
    by (auto simp: MultiPlot_def Let_def split: if_splits sum.splits)
  with MultiPlot_range_frame [OF this(1) assms(2)] show ?thesis by simp
qed

lemma HpglMultiPlot_store:
  assumes "HpglMultiPlot L h turtleCmds turtleAngles plotTitle labels penWidth hpglPath
             = Inr (out, h')"
    and "l \<noteq> Range_v"
  shows "h' l = h l"
proof -
  from assms(1) obtain st0 st where
    "HpglMultiPlot_range L turtleCmds turtleAngles labels 0 st0 = Inr st"
    and "layout_heap st0 = h" and "h' = layout_heap st"
    by (auto simp: HpglMultiPlot_def Let_def split: if_splits sum.splits)
  with HpglMultiPlot_range_frame [OF this(1) assms(2)] show ?thesis by simp
qed

lemma Plot_example_returns:
  "\<exists>out h'. Plot reference_lib no_names store0 90 ''set terminal png'' ''set output'' []
              ''#ff0000'' = Inr (out, h')"
  by (simp add: Plot_def validFgColor_def eval_gnuplot store0_def)

lemma HpglPlot_example_returns:
  "\<exists>out h'. HpglPlot reference_lib store0 90 [] 0.35 ''plot.plt'' = Inr (out, h')"
  by (simp add: HpglPlot_def eval_hpgl store0_def)

lemma MultiPlot_example_returns:
  "\<exists>out h'. MultiPlot reference_lib no_names store0 [Elem 0, Elem 1] [90, 90]
              ''set terminal png'' ''set output'' [] [[], []] ''#ff0000'' = Inr (out, h')"
  by (simp add: MultiPlot_def validFgColor_def MultiPlot_range.simps MultiPlot_body_def
        eval_dry eval_gnuplot store0_def)

lemma HpglMultiPlot_example_returns:
  "\<exists>out h'. HpglMultiPlot reference_lib store0 [Elem 0, Elem 1] [90, 90] [] [[], []] 0.35
              ''plot.plt'' = Inr (out, h')"
  by (simp add: HpglMultiPlot_def HpglMultiPlot_range.simps HpglMultiPlot_body_def
        eval_dry eval_hpgl store0_def)

text \<open>
  Claim C3, as stated. \<open>Plot\<close> and \<open>HpglPlot\<close> pass the address of the exported
  \<open>TurtleCmds\<close> to the compiler, which writes through it: with \<open>FX\<close> in \<open>TurtleCmds\<close>,
  either call returns with \<open>F\<close> in \<open>TurtleCmds\<close>.
\<close>

theorem Plot_rewrites_TurtleCmds:
  "map_sum id (\<lambda>r. snd r TurtleCmds)
     (Plot reference_lib no_names ((\<lambda>l. [])(TurtleCmds := ''FX'')) 90
        ''set terminal png'' ''set output'' [] ''#ff0000'') = Inr ''F'' \<and>
   map_sum id (\<lambda>r. snd r TurtleCmds)
     (HpglPlot reference_lib ((\<lambda>l. [])(TurtleCmds := ''FX'')) 90 [] 0.35 ''plot.plt'')
     = Inr ''F''"
  by (simp add: Plot_def HpglPlot_def validFgColor_def eval_gnuplot eval_hpgl)

text \<open>
  Claim C3, amended. When \<open>Plot\<close> or \<open>HpglPlot\<close> returns, every string of the store
  other than \<open>TurtleCmds\<close> is as before, and \<open>TurtleCmds\<close> holds what the compilation
  pass left of it: for a string of bytes below 128 without a heading directive, the string
  after the sweep that drops cancelling pairs, with every symbol other than
  \<open>F f + - | $ [ ] { }\<close> removed. When \<open>MultiPlot\<close> or \<open>HpglMultiPlot\<close> returns, every
  string of the store other than the variable of their own \<open>range\<close> loop is as before:
  \<open>TurtleCmds\<close> and the elements of the caller's slice are unchanged.
\<close>

theorem plots_and_the_store:
  "(Plot L P h angle terminalCmd outputCmd plotTitle lineColor = Inr (out1, h1) \<longrightarrow>
      (\<forall>l. l \<noteq> TurtleCmds \<longrightarrow> h1 l = h l) \<and>
      (plain_symbols (h TurtleCmds) \<longrightarrow> h1 TurtleCmds = stripped (h TurtleCmds))) \<and>
   (HpglPlot L h angle plotTitle penWidth hpglPath = Inr (out2, h2) \<longrightarrow>
      (\<forall>l. l \<noteq> TurtleCmds \<longrightarrow> h2 l = h l) \<and>
      (plain_symbols (h TurtleCmds) \<longrightarrow> h2 TurtleCmds = stripped (h TurtleCmds))) \<and>
   (MultiPlot L P h turtleCmds turtleAngles terminalCmd outputCmd plotTitle labels lineColor
      = Inr (out3, h3) \<longrightarrow> (\<forall>l. l \<noteq> Range_v \<longrightarrow> h3 l = h l)) \<and>
   (HpglMultiPlot L h turtleCmds turtleAngles plotTitle labels penWidth hpglPath
      = Inr (out4, h4) \<longrightarrow> (\<forall>l. l \<noteq> Range_v \<longrightarrow> h4 l = h l))"
proof (intro conjI)
  show "Plot L P h angle terminalCmd outputCmd plotTitle lineColor = Inr (out1, h1) \<longrightarrow>
      (\<forall>l. l \<noteq> TurtleCmds \<longrightarrow> h1 l = h l) \<and>
      (plain_symbols (h TurtleCmds) \<longrightarrow> h1 TurtleCmds = stripped (h TurtleCmds))"
    by (rule impI) (rule Plot_store)
  show "HpglPlot L h angle plotTitle penWidth hpglPath = Inr (out2, h2) \<longrightarrow>
      (\<forall>l. l \<noteq> TurtleCmds \<longrightarrow> h2 l = h l) \<and>
      (plain_symbols (h TurtleCmds) \<longrightarrow> h2 TurtleCmds = stripped (h TurtleCmds))"
    by (rule impI) (rule HpglPlot_store)
  show "MultiPlot L P h turtleCmds turtleAngles terminalCmd outputCmd plotTitle labels lineColor
      = Inr (out3, h3) \<longrightarrow> (\<forall>l. l \<noteq> Range_v \<longrightarrow> h3 l = h l)"
    using MultiPlot_store by blast
  show "HpglMultiPlot L h turtleCmds turtleAngles plotTitle labels penWidth hpglPath
      = Inr (out4, h4) \<longrightarrow> (\<forall>l. l \<noteq> Range_v \<longrightarrow> h4 l = h l)"
    using HpglMultiPlot_store by blast
qed

theorem plots_and_the_store_witness:
  "map_sum id (\<lambda>r. (snd r TurtleCmds, snd r (Elem 0), snd r (Elem 1)))
     (Plot reference_lib no_names store0 90 ''set terminal png'' ''set output'' [] ''#ff0000'')
     = Inr (''FF'', ''FX'', ''F+-F'') \<and>
   map_sum id (\<lambda>r. (snd r TurtleCmds, snd r (Elem 0), snd r (Elem 1)))
     (HpglPlot reference_lib store0 90 [] 0.35 ''plot.plt'')
     = Inr (''FF'', ''FX'', ''F+-F'') \<and>
   map_sum id (\<lambda>r. (snd r TurtleCmds, snd r (Elem 0), snd r (Elem 1)))
     (MultiPlot reference_lib no_names store0 [Elem 0, Elem 1] [90, 90]
        ''set terminal png'' ''set output'' [] [[], []] ''#ff0000'')
     = Inr (''F+-XFX'', ''FX'', ''F+-F'') \<and>
   map_sum id (\<lambda>r. (snd r TurtleCmds, snd r (Elem 0), snd r (Elem 1)))
     (HpglMultiPlot reference_lib store0 [Elem 0, Elem 1] [90, 90] [] [[], []] 0.35
        ''plot.plt'')
     = Inr (''F+-XFX'', ''FX'', ''F+-F'')"
proof -
  from Plot_example_returns obtain out1 h1 where
    e1: "Plot reference_lib no_names store0 90 ''set terminal png'' ''set output'' []
           ''#ff0000'' = Inr (out1, h1)" by blast
  from HpglPlot_example_returns obtain out2 h2 where
    e2: "HpglPlot reference_lib store0 90 [] 0.35 ''plot.plt'' = Inr (out2, h2)" by blast
  from MultiPlot_example_returns obtain out3 h3 where
    e3: "MultiPlot reference_lib no_names store0 [Elem 0, Elem 1] [90, 90]
           ''set terminal png'' ''set output'' [] [[], []] ''#ff0000'' = Inr (out3, h3)"
    by blast
  from HpglMultiPlot_example_returns obtain out4 h4 where
    e4: "HpglMultiPlot reference_lib store0 [Elem 0, Elem 1] [90, 90] [] [[], []] 0.35
           ''plot.plt'' = Inr (out4, h4)" by blast
  have plain: "plain_symbols (store0 TurtleCmds)"
    by (simp add: store0_def plain_symbols_def)
  have strip: "stripped (store0 TurtleCmds) = ''FF''"
    by (simp add: store0_def stripped_def drawing_constant_def)
  note T = plots_and_the_store
             [of reference_lib no_names store0 90 "''set terminal png''" "''set output''" "[]"
                 "''#ff0000''" out1 h1 "0.35" "''plot.plt''" out2 h2 "[Elem 0, Elem 1]"
                 "[90, 90]" "[[], []]" out3 h3 out4 h4]
  from T e1 plain strip have "h1 TurtleCmds = ''FF''" "h1 (Elem 0) = store0 (Elem 0)"
    "h1 (Elem 1) = store0 (Elem 1)" by simp_all
  moreover from T e2 plain strip have "h2 TurtleCmds = ''FF''" "h2 (Elem 0) = store0 (Elem 0)"
    "h2 (Elem 1) = store0 (Elem 1)" by simp_all
  moreover from T e3 have "h3 TurtleCmds = store0 TurtleCmds" "h3 (Elem 0) = store0 (Elem 0)"
    "h3 (Elem 1) = store0 (Elem 1)" by simp_all
  moreover from T e4 have "h4 TurtleCmds = store0 TurtleCmds" "h4 (Elem 0) = store0 (Elem 0)"
    "h4 (Elem 1) = store0 (Elem 1)" by simp_all
  ultimately show ?thesis
    using e1 e2 e3 e4 by (simp add: store0_def)
qed

end
